theory Spec2Isabelle
  imports Main "HOL-Library.AList"
begin

section \<open>JavaScript values\<close>

text \<open>
  The client is written in JavaScript, and several of its decisions are truthiness tests
  (\<^verbatim>\<open>a ? a : b\<close>, \<^verbatim>\<open>a || b\<close>) on values of any type. Values are therefore a
  datatype. The program does no arithmetic on numbers: it tests them for truthiness and
  renders them in template literals. A number is therefore kept as the decimal that
  Number::toString works from, the shortest one that reads back as the number (every finite
  number has exactly one): \<open>JNum m k\<close> is the number whose shortest decimal is
  \<open>m / 10 ^ k\<close>. So 40.71 is \<open>JNum 4071 2\<close>, \<^verbatim>\<open>1e-7\<close> is \<open>JNum 1 7\<close>,
  \<^verbatim>\<open>1e21\<close> is \<open>JNum 1000000000000000000000 0\<close> and \<^verbatim>\<open>0.1 + 0.2\<close> is
  \<open>JNum 30000000000000004 17\<close>; both zeros are \<open>JNum 0 k\<close>. A decimal that is the
  shortest form of no number (one with more than 17 significant digits, for instance) stands
  for no value of the program. \<open>JNaN\<close> and \<open>JInfinity\<close> (with \<open>True\<close> for the negative
  one) are the numbers that are not finite. An object is the list of its own properties in
  insertion order.
\<close>

datatype jsval =
    JUndefined
  | JNull
  | JBool bool
  | JNum int nat
  | JNaN
  | JInfinity bool
  | JStr string
  | JObj "(string \<times> jsval) list"

text \<open>ToBoolean: \<^verbatim>\<open>undefined\<close>, \<^verbatim>\<open>null\<close>, \<^verbatim>\<open>false\<close>, zero, \<^verbatim>\<open>NaN\<close> and the
  empty string are falsy, everything else (every object too) is truthy.\<close>

fun truthy :: "jsval \<Rightarrow> bool" where
  "truthy JUndefined = False"
| "truthy JNull = False"
| "truthy (JBool b) = b"
| "truthy (JNum m k) = (m \<noteq> 0)"
| "truthy JNaN = False"
| "truthy (JInfinity negative) = True"
| "truthy (JStr s) = (s \<noteq> [])"
| "truthy (JObj ps) = True"

text \<open>\<^verbatim>\<open>a || b\<close>\<close>

definition js_or :: "jsval \<Rightarrow> jsval \<Rightarrow> jsval" where
  "js_or a b = (if truthy a then a else b)"

subsection \<open>Rendering values as strings\<close>

definition digit :: "int \<Rightarrow> char" where
  "digit d = ''0123456789'' ! nat d"

function show_digits :: "int \<Rightarrow> string" where
  "show_digits n =
     (if n < 10 then [digit n] else show_digits (n div 10) @ [digit (n mod 10)])"
  by pat_completeness auto
termination
  by (relation "measure nat") auto

text \<open>
  Number::toString for a finite number, in radix 10. With \<open>s\<close> the digits of the
  shortest decimal without its trailing zeros, \<open>k\<close> their count and \<open>n\<close> the
  position of the decimal point (the number is \<open>0.s\<close> times \<open>10 ^ n\<close>): an integer
  below \<open>1e21\<close> is \<open>s\<close> and \<open>n - k\<close> zeros; a number with \<open>0 < n \<le> 21\<close> has
  the point after \<open>n\<close> digits; one with \<open>-6 < n \<le> 0\<close> is \<^verbatim>\<open>0.\<close>, \<open>-n\<close> zeros and
  \<open>s\<close>; every other number is in exponent notation, the first digit, a point and the
  other digits if there are any, \<^verbatim>\<open>e\<close>, the sign of \<open>n - 1\<close> and its digits.
\<close>

definition show_num :: "int \<Rightarrow> nat \<Rightarrow> string" where
  "show_num m j =
     (if m = 0 then ''0''
      else
        let ds = show_digits \<bar>m\<bar>;
            s = rev (dropWhile (\<lambda>c. c = CHR ''0'') (rev ds));
            k = int (length s);
            n = int (length ds) - int j
        in (if m < 0 then ''-'' else []) @
           (if k \<le> n \<and> n \<le> 21 then s @ replicate (nat (n - k)) (CHR ''0'')
            else if 0 < n \<and> n \<le> 21 then take (nat n) s @ ''.'' @ drop (nat n) s
            else if - 6 < n \<and> n \<le> 0 then ''0.'' @ replicate (nat (- n)) (CHR ''0'') @ s
            else (if k = 1 then s else take 1 s @ ''.'' @ drop 1 s) @ ''e'' @
                 (if n - 1 < 0 then ''-'' else ''+'') @ show_digits \<bar>n - 1\<bar>))"

text \<open>ToString, as template literals, \<^verbatim>\<open>+\<close> with a string and
  \<^verbatim>\<open>Array.prototype.join\<close> apply it. A plain object renders as
  \<^verbatim>\<open>[object Object]\<close>.\<close>

fun to_string :: "jsval \<Rightarrow> string" where
  "to_string JUndefined = ''undefined''"
| "to_string JNull = ''null''"
| "to_string (JBool b) = (if b then ''true'' else ''false'')"
| "to_string (JNum m k) = show_num m k"
| "to_string JNaN = ''NaN''"
| "to_string (JInfinity negative) = (if negative then ''-Infinity'' else ''Infinity'')"
| "to_string (JStr s) = s"
| "to_string (JObj ps) = ''[object Object]''"

subsection \<open>The transport's answers and the errors of a call\<close>

text \<open>
  A transport response exposes \<^verbatim>\<open>status\<close>, \<^verbatim>\<open>statusText\<close>, \<^verbatim>\<open>data\<close> and
  \<^verbatim>\<open>request\<close> (the transport's request object, \<^verbatim>\<open>undefined\<close> when the adapter
  attaches none).
\<close>

record response =
  status :: int
  statusText :: string
  data :: jsval
  request :: jsval

text \<open>
  A value the transport rejects with: its message and \<^verbatim>\<open>e.response\<close>, the attached
  response (\<open>None\<close> for a connection failure or a timeout).
\<close>

datatype exn = Exn string "response option"

datatype transport_outcome = Resolves response | Rejects exn

text \<open>
  What a call can raise: a \<^verbatim>\<open>TypeError\<close> of the engine (a property of
  \<^verbatim>\<open>undefined\<close> or \<^verbatim>\<open>null\<close> is read or written, a property is created on a
  primitive in strict mode, a value that is not a function is called), the transport's own
  exception passed on unchanged, or the error the strict policy builds: its message,
  \<^verbatim>\<open>err.code\<close> and \<^verbatim>\<open>err.meta\<close>.
\<close>

datatype js_error =
    TypeError
  | Rejected exn
  | StatusError string int jsval

subsection \<open>Property access\<close>

definition nullish :: "jsval \<Rightarrow> bool" where
  "nullish v = (v = JUndefined \<or> v = JNull)"

text \<open>Reading \<^verbatim>\<open>v.k\<close> when \<open>v\<close> is not \<^verbatim>\<open>undefined\<close> or \<^verbatim>\<open>null\<close>. None of the
  keys the program reads is a property of a built-in prototype, so a primitive and an
  object without the key give \<^verbatim>\<open>undefined\<close>.\<close>

fun lookup :: "jsval \<Rightarrow> string \<Rightarrow> jsval" where
  "lookup (JObj ps) k = (case map_of ps k of None \<Rightarrow> JUndefined | Some v \<Rightarrow> v)"
| "lookup v k = JUndefined"

text \<open>\<^verbatim>\<open>v.k\<close>\<close>

definition get_prop :: "jsval \<Rightarrow> string \<Rightarrow> js_error + jsval" where
  "get_prop v k = (if nullish v then Inl TypeError else Inr (lookup v k))"

text \<open>\<^verbatim>\<open>v.k = x\<close> in strict mode (both files are strict: one says so, the other is a
  class body). An existing key keeps its place, a new one goes last.\<close>

fun set_prop :: "jsval \<Rightarrow> string \<Rightarrow> jsval \<Rightarrow> js_error + jsval" where
  "set_prop (JObj ps) k x = Inr (JObj (AList.update k x ps))"
| "set_prop v k x = Inl TypeError"

text \<open>\<^verbatim>\<open>o.a.b = x\<close>: \<^verbatim>\<open>o.a\<close> is read, the property is set on it, and \<open>o\<close> sees the
  change, as the object \<^verbatim>\<open>o.a\<close> is mutated in place.\<close>

definition set_prop2 :: "jsval \<Rightarrow> string \<Rightarrow> string \<Rightarrow> jsval \<Rightarrow> js_error + jsval" where
  "set_prop2 v a b x =
     (case get_prop v a of
        Inl e \<Rightarrow> Inl e
      | Inr p \<Rightarrow> (case set_prop p b x of Inl e \<Rightarrow> Inl e | Inr p' \<Rightarrow> set_prop v a p'))"

text \<open>Sequencing of statements that may raise.\<close>

definition and_then :: "js_error + 'a \<Rightarrow> ('a \<Rightarrow> js_error + 'b) \<Rightarrow> js_error + 'b" where
  "and_then m f = (case m of Inl e \<Rightarrow> Inl e | Inr v \<Rightarrow> f v)"

text \<open>\<^verbatim>\<open>_.compact\<close> keeps the truthy elements; \<^verbatim>\<open>Array.prototype.join\<close> renders each
  element and puts the separator between them.\<close>

definition compact :: "jsval list \<Rightarrow> jsval list" where
  "compact xs = filter truthy xs"

fun join_strings :: "string \<Rightarrow> string list \<Rightarrow> string" where
  "join_strings sep [] = []"
| "join_strings sep [x] = x"
| "join_strings sep (x # y # ys) = x @ sep @ join_strings sep (y # ys)"

definition join :: "jsval list \<Rightarrow> string \<Rightarrow> string" where
  "join xs sep = join_strings sep (map (\<lambda>x. if nullish x then [] else to_string x) xs)"

section \<open>What a call does\<close>

text \<open>
  A call of the pipeline ends in a value or an error (\<open>result\<close>), after handing the
  transport the configurations in \<open>dispatched\<close> and the log sink the lines in
  \<open>emitted\<close>, each with the level it was emitted at. The transport is a parameter:
  a function from the configuration it is given to what it answers.
\<close>

record outcome =
  result :: "js_error + jsval"
  dispatched :: "jsval list"
  emitted :: "(string \<times> string) list"

text \<open>The fields both classes keep: the credentials and the host.\<close>

record client =
  appId :: jsval
  appKey :: jsval
  host :: jsval

section \<open>Class ClearAg (lib/clearag.js): the strict policy\<close>

record ClearAg = client +
  debug :: jsval

definition ClearAg_constructor :: "jsval \<Rightarrow> js_error + ClearAg" where
  "ClearAg_constructor options =
     (if nullish options then Inl TypeError
      else Inr \<lparr>
        appId = js_or (js_or (lookup options ''appId'') (lookup options ''app_id'')) (JStr []),
        appKey = js_or (js_or (lookup options ''appKey'') (lookup options ''app_key'')) (JStr []),
        host = js_or (lookup options ''host'') (JStr ''https://ag.us.clearapis.com''),
        debug = js_or (lookup options ''debug'') (JBool False) \<rparr>)"

definition ClearAg_buildApiUrl :: "ClearAg \<Rightarrow> string \<Rightarrow> string" where
  "ClearAg_buildApiUrl this endpoint =
     (let endpoint' = (if take 1 endpoint \<noteq> ''/'' then ''/'' @ endpoint else endpoint)
      in to_string (host this) @ endpoint')"

definition ClearAg_isResponseSuccessful :: "response \<Rightarrow> bool" where
  "ClearAg_isResponseSuccessful response = (status response \<ge> 200 \<and> status response < 300)"

text \<open>Lines 28 to 30 of \<^verbatim>\<open>_http\<close>: the configuration as it is handed to the transport.\<close>

definition ClearAg_http_config :: "ClearAg \<Rightarrow> jsval \<Rightarrow> js_error + jsval" where
  "ClearAg_http_config this config0 =
     (let config = js_or config0 (JObj []) in
      and_then (set_prop2 config ''params'' ''app_id''
                  (if truthy (appId this) then appId this
                   else if truthy (lookup config ''appId'') then lookup config ''appId''
                   else JNull))
        (\<lambda>config.
      set_prop2 config ''params'' ''app_key''
                  (if truthy (appKey this) then appKey this
                   else if truthy (lookup config ''appKey'') then lookup config ''appKey''
                   else JNull)))"

text \<open>\<^verbatim>\<open>_http\<close>. A rejection of the transport is not caught: it is the call's error.\<close>

definition ClearAg_http :: "ClearAg \<Rightarrow> (jsval \<Rightarrow> transport_outcome) \<Rightarrow> jsval \<Rightarrow> outcome" where
  "ClearAg_http this axios_request config0 =
     (case ClearAg_http_config this config0 of
        Inl e \<Rightarrow> \<lparr> result = Inl e, dispatched = [], emitted = [] \<rparr>
      | Inr config \<Rightarrow>
          (case axios_request config of
             Rejects e \<Rightarrow> \<lparr> result = Inl (Rejected e), dispatched = [config], emitted = [] \<rparr>
           | Resolves response \<Rightarrow>
               \<lparr> result =
                   (if \<not> ClearAg_isResponseSuccessful response
                    then Inl (StatusError
                           (show_num (status response) 0 @ '' - '' @
                            to_string (lookup config ''url'') @ '' failed'')
                           (status response) (data response))
                    else Inr (data response)),
                 dispatched = [config], emitted = [] \<rparr>))"

definition ClearAg_httpGet ::
  "ClearAg \<Rightarrow> (jsval \<Rightarrow> transport_outcome) \<Rightarrow> string \<Rightarrow> jsval \<Rightarrow> jsval \<Rightarrow> jsval \<Rightarrow> outcome" where
  "ClearAg_httpGet this axios_request endpoint params appId' appKey' =
     ClearAg_http this axios_request
       (JObj [(''method'', JStr ''get''),
              (''url'', JStr (ClearAg_buildApiUrl this endpoint)),
              (''params'', js_or params (JObj [])),
              (''appId'', appId'),
              (''appKey'', appKey')])"

definition ClearAg_dailyHistoricalAirTemperature ::
  "ClearAg \<Rightarrow> (jsval \<Rightarrow> transport_outcome) \<Rightarrow>
   jsval \<Rightarrow> jsval \<Rightarrow> jsval \<Rightarrow> jsval \<Rightarrow> jsval \<Rightarrow> jsval \<Rightarrow> outcome" where
  "ClearAg_dailyHistoricalAirTemperature this axios_request
     start end' latitude longitude location unitcode =
     ClearAg_httpGet this axios_request ''/v1.2/historical/daily/air_temp''
       (JObj [(''start'', start),
              (''end'', end'),
              (''location'',
                 if truthy location then location
                 else JStr (to_string latitude @ '', '' @ to_string longitude)),
              (''unitcode'', unitcode)])
       JUndefined JUndefined"

section \<open>Class ClearAgApi: the tolerant policy and the log\<close>

text \<open>
  The log sink is an object of the caller's; the client calls the method named by the log
  level on it. A sink is modelled by the names of the methods it has, \<open>None\<close> when the
  client was built without one.
\<close>

record ClearAgApi = client +
  name :: string
  logger :: "string list option"
  loggerConfig :: jsval
  logLevel :: jsval
  responseType :: jsval
  timeout :: jsval

definition ClearAgApi_constructor :: "jsval \<Rightarrow> string list option \<Rightarrow> js_error + ClearAgApi" where
  "ClearAgApi_constructor options logger' =
     (if nullish options then Inl TypeError
      else Inr \<lparr>
        appId = js_or (js_or (lookup options ''appId'') (lookup options ''app_id'')) (JStr []),
        appKey = js_or (js_or (lookup options ''appKey'') (lookup options ''app_key'')) (JStr []),
        host = js_or (lookup options ''host'') (JStr ''https://ag.us.clearapis.com''),
        name = ''clearag-api'',
        logger = logger',
        loggerConfig = lookup options ''loggerConfig'',
        logLevel = js_or (lookup options ''logLevel'') (JStr ''verbose''),
        responseType = js_or (lookup options ''responseType'') (JStr ''json''),
        timeout = js_or (lookup options ''timeout'') (JNum (1000 * 60 * 3) 0) \<rparr>)"

definition ClearAgApi_buildApiUrl :: "ClearAgApi \<Rightarrow> string \<Rightarrow> string" where
  "ClearAgApi_buildApiUrl this endpoint =
     (let endpoint' = (if take 1 endpoint \<noteq> ''/'' then ''/'' @ endpoint else endpoint)
      in to_string (host this) @ endpoint')"

text \<open>
  \<^verbatim>\<open>_writeLog\<close>, with \<^verbatim>\<open>JSON.stringify\<close> as a parameter (it answers a string, or
  \<^verbatim>\<open>undefined\<close> for \<^verbatim>\<open>undefined\<close>). The level is \<^verbatim>\<open>undefined\<close> when the caller
  leaves it out, and then defaults to the client's. The class has no method
  \<^verbatim>\<open>_buildScheme\<close>, so calling it raises. The result is the lines handed to the sink.
\<close>

definition ClearAgApi_writeLog ::
  "ClearAgApi \<Rightarrow> (jsval \<Rightarrow> jsval) \<Rightarrow> string \<Rightarrow> jsval \<Rightarrow> response \<Rightarrow> jsval \<Rightarrow>
   js_error + (string \<times> string) list" where
  "ClearAgApi_writeLog this JSON_stringify endpoint axiosConfig response logLevel0 =
     (let logLevel' = (if logLevel0 = JUndefined then logLevel this else logLevel0) in
      case logger this of
        None \<Rightarrow> Inr []
      | Some methods \<Rightarrow>
          and_then (get_prop axiosConfig ''method'') (\<lambda>method.
          and_then (get_prop (loggerConfig this) ''url'') (\<lambda>url_flag.
          and_then (if truthy url_flag then Inl TypeError else Inr JNull) (\<lambda>scheme.
          and_then (get_prop (loggerConfig this) ''params'') (\<lambda>params_flag.
          and_then (if truthy params_flag then get_prop (request response) ''path''
                    else Inr (JStr endpoint)) (\<lambda>path.
          and_then (get_prop (loggerConfig this) ''data'') (\<lambda>data_flag.
          and_then (get_prop (loggerConfig this) ''response'') (\<lambda>response_flag.
            let logParts =
                  [JStr (''['' @ name this @ '']''), method, scheme, path,
                   if truthy data_flag then JSON_stringify (lookup axiosConfig ''data'')
                   else JNull,
                   JStr (show_num (status response) 0 @ '' '' @ statusText response),
                   if truthy response_flag then JSON_stringify (data response) else JNull];
                log = join (compact logParts) '' ''
            in if to_string logLevel' \<in> set methods
               then Inr [(to_string logLevel', log)]
               else Inl TypeError))))))))"

text \<open>Lines 53 to 58 of \<^verbatim>\<open>_request\<close>: the configuration as it is handed to the
  transport.\<close>

definition ClearAgApi_request_config :: "ClearAgApi \<Rightarrow> string \<Rightarrow> jsval \<Rightarrow> js_error + jsval" where
  "ClearAgApi_request_config this endpoint config0 =
     (let config = js_or config0 (JObj []) in
      and_then (set_prop config ''url'' (JStr (ClearAgApi_buildApiUrl this endpoint))) (\<lambda>config.
      and_then (set_prop config ''responseType'' (responseType this)) (\<lambda>config.
      and_then (set_prop2 config ''params'' ''app_id''
                  (if truthy (appId this) then appId this
                   else if truthy (lookup config ''appId'') then lookup config ''appId''
                   else JNull)) (\<lambda>config.
      and_then (set_prop2 config ''params'' ''app_key''
                  (if truthy (appKey this) then appKey this
                   else if truthy (lookup config ''appKey'') then lookup config ''appKey''
                   else JNull)) (\<lambda>config.
      if truthy (timeout this) then set_prop config ''timeout'' (timeout this)
      else Inr config)))))"

text \<open>
  \<^verbatim>\<open>_request\<close>, from the transport call on. An error raised while the log line is
  written, on either path, is the call's error.
\<close>

definition ClearAgApi_request ::
  "ClearAgApi \<Rightarrow> (jsval \<Rightarrow> jsval) \<Rightarrow> (jsval \<Rightarrow> transport_outcome) \<Rightarrow> string \<Rightarrow> jsval \<Rightarrow> outcome" where
  "ClearAgApi_request this JSON_stringify instance endpoint config0 =
     (case ClearAgApi_request_config this endpoint config0 of
        Inl err \<Rightarrow> \<lparr> result = Inl err, dispatched = [], emitted = [] \<rparr>
      | Inr config \<Rightarrow>
          (case instance config of
             Rejects e \<Rightarrow>
               (case e of Exn message attached \<Rightarrow>
                 (case attached of
                    None \<Rightarrow> \<lparr> result = Inl (Rejected e), dispatched = [config], emitted = [] \<rparr>
                  | Some e_response \<Rightarrow>
                      (case ClearAgApi_writeLog this JSON_stringify endpoint config e_response
                              (JStr ''error'') of
                         Inl err \<Rightarrow> \<lparr> result = Inl err, dispatched = [config], emitted = [] \<rparr>
                       | Inr lines \<Rightarrow>
                           if status e_response = 404
                           then \<lparr> result = Inr JNull, dispatched = [config], emitted = lines \<rparr>
                           else \<lparr> result = Inl (Rejected e), dispatched = [config],
                                  emitted = lines \<rparr>)))
           | Resolves response \<Rightarrow>
               (case ClearAgApi_writeLog this JSON_stringify endpoint config response
                       JUndefined of
                  Inl err \<Rightarrow> \<lparr> result = Inl err, dispatched = [config], emitted = [] \<rparr>
                | Inr lines \<Rightarrow>
                    \<lparr> result = Inr (data response), dispatched = [config],
                       emitted = lines \<rparr>)))"

definition ClearAgApi_get ::
  "ClearAgApi \<Rightarrow> (jsval \<Rightarrow> jsval) \<Rightarrow> (jsval \<Rightarrow> transport_outcome) \<Rightarrow>
   string \<Rightarrow> jsval \<Rightarrow> jsval \<Rightarrow> jsval \<Rightarrow> outcome" where
  "ClearAgApi_get this JSON_stringify instance endpoint params appId' appKey' =
     ClearAgApi_request this JSON_stringify instance endpoint
       (JObj [(''method'', JStr ''GET''),
              (''params'', js_or params (JObj [])),
              (''appId'', appId'),
              (''appKey'', appKey')])"

definition ClearAgApi_dailyHistoricalAirTemperature ::
  "ClearAgApi \<Rightarrow> (jsval \<Rightarrow> jsval) \<Rightarrow> (jsval \<Rightarrow> transport_outcome) \<Rightarrow>
   jsval \<Rightarrow> jsval \<Rightarrow> jsval \<Rightarrow> jsval \<Rightarrow> jsval \<Rightarrow> jsval \<Rightarrow> outcome" where
  "ClearAgApi_dailyHistoricalAirTemperature this JSON_stringify instance
     start end' latitude longitude location unitcode =
     ClearAgApi_get this JSON_stringify instance ''/v1.2/historical/daily/air_temp''
       (JObj [(''start'', start),
              (''end'', end'),
              (''location'',
                 if truthy location then location
                 else JStr (to_string latitude @ '', '' @ to_string longitude)),
              (''unitcode'', unitcode)])
       JUndefined JUndefined"

section \<open>Properties\<close>

subsection \<open>Rendering numbers\<close>

text \<open>
  The rendering on numbers in each notation: decimals, integers up to \<^verbatim>\<open>1e21\<close>, small
  numbers down to \<^verbatim>\<open>1e-6\<close>, and exponent notation beyond both.
\<close>

lemma number_rendering:
  "map to_string
     [JNum 4071 2, JNum (- 7401) 2, JNum 1577836800 0, JNum 0 0, JNum 5 3, JNum 4070 2,
      JNum 1 6, JNum 1 7, JNum 123 9, JNum 100000000000000000000 0,
      JNum 1000000000000000000000 0, JNum 1500000000000000000000 0,
      JNum 123456789012345680000 0, JNum 30000000000000004 17, JNum (- 1) 7,
      JNaN, JInfinity False, JInfinity True]
   = [''40.71'', ''-74.01'', ''1577836800'', ''0'', ''0.005'', ''40.7'',
      ''0.000001'', ''1e-7'', ''1.23e-7'', ''100000000000000000000'',
      ''1e+21'', ''1.5e+21'',
      ''123456789012345680000'', ''0.30000000000000004'', ''-1e-7'',
      ''NaN'', ''Infinity'', ''-Infinity'']"
  by code_simp

subsection \<open>Reading and writing properties\<close>

lemma lookup_update:
  "lookup (JObj (AList.update k x ps)) k' = (if k' = k then x else lookup (JObj ps) k')"
  by (simp add: update_conv')

lemma set_prop_Inr:
  "set_prop v k x = Inr v' \<Longrightarrow> \<exists>ps. v = JObj ps \<and> v' = JObj (AList.update k x ps)"
  by (cases v) auto

lemma set_prop2_Inr:
  assumes "set_prop2 v a b x = Inr v'"
  shows "\<exists>ps qs. v = JObj ps \<and> lookup v a = JObj qs \<and>
           v' = JObj (AList.update a (JObj (AList.update b x qs)) ps)"
proof -
  from assms obtain p p' where p: "get_prop v a = Inr p" and p': "set_prop p b x = Inr p'"
    and v': "set_prop v a p' = Inr v'"
    by (auto simp: set_prop2_def split: sum.splits)
  from p' obtain qs where qs: "p = JObj qs" "p' = JObj (AList.update b x qs)"
    using set_prop_Inr by blast
  from v' obtain ps where ps: "v = JObj ps" "v' = JObj (AList.update a p' ps)"
    using set_prop_Inr by blast
  from p have "lookup v a = p" by (auto simp: get_prop_def split: if_splits)
  with qs ps show ?thesis by simp
qed

lemma set_prop2_lookup:
  assumes "set_prop2 v a b x = Inr v'"
  shows "lookup (lookup v' a) b = x"
    and "k \<noteq> a \<Longrightarrow> lookup v' k = lookup v k"
    and "k \<noteq> b \<Longrightarrow> lookup (lookup v' a) k = lookup (lookup v a) k"
  using set_prop2_Inr [OF assms] by (auto simp del: lookup.simps simp: lookup_update)

lemma set_prop2_obj:
  "set_prop2 (JObj ps) a b x =
     (case lookup (JObj ps) a of
        JObj qs \<Rightarrow> Inr (JObj (AList.update a (JObj (AList.update b x qs)) ps))
      | _ \<Rightarrow> Inl TypeError)"
  by (cases "lookup (JObj ps) a") (simp_all add: set_prop2_def get_prop_def nullish_def)

lemma js_or_lookup: "lookup (js_or config (JObj [])) k = lookup config k"
  by (cases config) (simp_all add: js_or_def)

lemma ClearAg_http_config_Inr:
  assumes "ClearAg_http_config this config = Inr c"
  shows "lookup (lookup c ''params'') ''app_id'' =
           (if truthy (appId this) then appId this
            else if truthy (lookup config ''appId'') then lookup config ''appId'' else JNull)"
    and "lookup (lookup c ''params'') ''app_key'' =
           (if truthy (appKey this) then appKey this
            else if truthy (lookup config ''appKey'') then lookup config ''appKey'' else JNull)"
proof -
  let ?c0 = "js_or config (JObj [])"
  from assms obtain c1 where
    c1: "set_prop2 ?c0 ''params'' ''app_id''
           (if truthy (appId this) then appId this
            else if truthy (lookup ?c0 ''appId'') then lookup ?c0 ''appId'' else JNull) = Inr c1"
    and c: "set_prop2 c1 ''params'' ''app_key''
           (if truthy (appKey this) then appKey this
            else if truthy (lookup c1 ''appKey'') then lookup c1 ''appKey'' else JNull) = Inr c"
    by (auto simp: ClearAg_http_config_def and_then_def Let_def split: sum.splits)
  have k: "lookup c1 ''appKey'' = lookup config ''appKey''"
    using set_prop2_lookup(2) [OF c1, of "''appKey''"] by (simp add: js_or_lookup)
  show "lookup (lookup c ''params'') ''app_key'' =
           (if truthy (appKey this) then appKey this
            else if truthy (lookup config ''appKey'') then lookup config ''appKey'' else JNull)"
    using set_prop2_lookup(1) [OF c] k by simp
  have "lookup (lookup c ''params'') ''app_id'' = lookup (lookup c1 ''params'') ''app_id''"
    using set_prop2_lookup(3) [OF c, of "''app_id''"] by simp
  then show "lookup (lookup c ''params'') ''app_id'' =
           (if truthy (appId this) then appId this
            else if truthy (lookup config ''appId'') then lookup config ''appId'' else JNull)"
    using set_prop2_lookup(1) [OF c1] by (simp add: js_or_lookup)
qed


lemma set_prop_lookup:
  "set_prop v k x = Inr v' \<Longrightarrow> lookup v' k' = (if k' = k then x else lookup v k')"
  using set_prop_Inr [of v k x v'] by (auto simp del: lookup.simps simp: lookup_update)

lemma ClearAgApi_request_config_Inr:
  assumes "ClearAgApi_request_config this endpoint config = Inr c"
  shows "lookup (lookup c ''params'') ''app_id'' =
           (if truthy (appId this) then appId this
            else if truthy (lookup config ''appId'') then lookup config ''appId'' else JNull)"
    and "lookup (lookup c ''params'') ''app_key'' =
           (if truthy (appKey this) then appKey this
            else if truthy (lookup config ''appKey'') then lookup config ''appKey'' else JNull)"
    and "lookup c ''url'' = JStr (ClearAgApi_buildApiUrl this endpoint)"
    and "lookup c ''method'' = lookup config ''method''"
    and "lookup c ''data'' = lookup config ''data''"
proof -
  let ?c0 = "js_or config (JObj [])"
  from assms obtain c1 c2 c3 c4 where
    c1: "set_prop ?c0 ''url'' (JStr (ClearAgApi_buildApiUrl this endpoint)) = Inr c1"
    and c2: "set_prop c1 ''responseType'' (responseType this) = Inr c2"
    and c3: "set_prop2 c2 ''params'' ''app_id''
           (if truthy (appId this) then appId this
            else if truthy (lookup c2 ''appId'') then lookup c2 ''appId'' else JNull) = Inr c3"
    and c4: "set_prop2 c3 ''params'' ''app_key''
           (if truthy (appKey this) then appKey this
            else if truthy (lookup c3 ''appKey'') then lookup c3 ''appKey'' else JNull) = Inr c4"
    and c: "(if truthy (timeout this) then set_prop c4 ''timeout'' (timeout this) else Inr c4) = Inr c"
    by (auto simp: ClearAgApi_request_config_def and_then_def Let_def split: sum.splits)
  have pre: "k \<notin> {''url'', ''responseType''} \<Longrightarrow> lookup c2 k = lookup config k" for k
    using set_prop_lookup [OF c1, of k] set_prop_lookup [OF c2, of k]
    by (simp add: js_or_lookup)
  have post: "k \<noteq> ''timeout'' \<Longrightarrow> lookup c k = lookup c4 k" for k
    using c set_prop_lookup [of c4 "''timeout''" "timeout this" c k]
    by (auto split: if_splits)
  have p: "lookup c ''params'' = lookup c4 ''params''"
    using post [of "''params''"] by simp
  have i2: "lookup c2 ''appId'' = lookup config ''appId''"
    using pre [of "''appId''"] by simp
  have k3: "lookup c3 ''appKey'' = lookup config ''appKey''"
    using set_prop2_lookup(2) [OF c3, of "''appKey''"] pre [of "''appKey''"] by simp
  show "lookup (lookup c ''params'') ''app_key'' =
           (if truthy (appKey this) then appKey this
            else if truthy (lookup config ''appKey'') then lookup config ''appKey'' else JNull)"
    using set_prop2_lookup(1) [OF c4] k3 p by simp
  have "lookup (lookup c4 ''params'') ''app_id'' = lookup (lookup c3 ''params'') ''app_id''"
    using set_prop2_lookup(3) [OF c4, of "''app_id''"] by simp
  then show "lookup (lookup c ''params'') ''app_id'' =
           (if truthy (appId this) then appId this
            else if truthy (lookup config ''appId'') then lookup config ''appId'' else JNull)"
    using set_prop2_lookup(1) [OF c3] i2 p by simp
  have mid: "k \<noteq> ''params'' \<Longrightarrow> lookup c4 k = lookup c2 k" for k
    using set_prop2_lookup(2) [OF c3, of k] set_prop2_lookup(2) [OF c4, of k] by simp
  show "lookup c ''url'' = JStr (ClearAgApi_buildApiUrl this endpoint)"
    using post [of "''url''"] mid [of "''url''"] set_prop_lookup [OF c1, of "''url''"]
      set_prop_lookup [OF c2, of "''url''"] by simp
  show "lookup c ''method'' = lookup config ''method''"
    using post [of "''method''"] mid [of "''method''"] pre [of "''method''"] by simp
  show "lookup c ''data'' = lookup config ''data''"
    using post [of "''data''"] mid [of "''data''"] pre [of "''data''"] by simp
qed

subsection \<open>The URL builder\<close>

text \<open>
  Claim C6. For every host string \<open>h\<close> and every endpoint path \<open>p\<close>, in both
  classes: when \<open>p\<close> starts with a slash the URL is \<open>h\<close> followed by \<open>p\<close>, with no
  second separator; otherwise it is \<open>h\<close>, a slash and \<open>p\<close>. The builder is a total
  function of the host and the path: it has a value, and raises nothing, on every string
  (the empty path too, which gives the host and a slash).
\<close>

theorem buildApiUrl_separator:
  "ClearAg_buildApiUrl (this\<lparr>host := JStr h\<rparr>) p =
     (if p \<noteq> [] \<and> hd p = CHR ''/'' then h @ p else h @ ''/'' @ p) \<and>
   ClearAgApi_buildApiUrl (that\<lparr>host := JStr h\<rparr>) p =
     (if p \<noteq> [] \<and> hd p = CHR ''/'' then h @ p else h @ ''/'' @ p)"
  by (cases p) (simp_all add: ClearAg_buildApiUrl_def ClearAgApi_buildApiUrl_def)

subsection \<open>Credential injection\<close>

lemma ClearAg_http_dispatched:
  "c \<in> set (dispatched (ClearAg_http this tr config)) \<Longrightarrow> ClearAg_http_config this config = Inr c"
  by (auto simp: ClearAg_http_def split: sum.splits transport_outcome.splits)

lemma ClearAgApi_request_dispatched:
  "c \<in> set (dispatched (ClearAgApi_request this sf tr endpoint config)) \<Longrightarrow>
   ClearAgApi_request_config this endpoint config = Inr c"
  by (auto simp: ClearAgApi_request_def
      split: sum.splits transport_outcome.splits exn.splits option.splits if_splits)

text \<open>
  Claim C1. In both classes, every configuration the pipeline hands to the transport
  carries, under the keys \<^verbatim>\<open>app_id\<close> and \<^verbatim>\<open>app_key\<close> of its
  \<^verbatim>\<open>params\<close>, the client's own value when that is non-empty (truthy), otherwise the
  per-call override when that is truthy, otherwise \<^verbatim>\<open>null\<close>. The configuration
  the caller passes is arbitrary, so whatever it held under the two keys is overwritten.
\<close>

theorem credentials_injected:
  "(\<forall>c \<in> set (dispatched (ClearAg_http this tr config)).
      lookup (lookup c ''params'') ''app_id'' =
        (if truthy (appId this) then appId this
         else if truthy (lookup config ''appId'') then lookup config ''appId'' else JNull) \<and>
      lookup (lookup c ''params'') ''app_key'' =
        (if truthy (appKey this) then appKey this
         else if truthy (lookup config ''appKey'') then lookup config ''appKey'' else JNull)) \<and>
   (\<forall>c \<in> set (dispatched (ClearAgApi_request that sf tr' endpoint config')).
      lookup (lookup c ''params'') ''app_id'' =
        (if truthy (appId that) then appId that
         else if truthy (lookup config' ''appId'') then lookup config' ''appId'' else JNull) \<and>
      lookup (lookup c ''params'') ''app_key'' =
        (if truthy (appKey that) then appKey that
         else if truthy (lookup config' ''appKey'') then lookup config' ''appKey'' else JNull))"
proof (intro conjI ballI)
  fix c assume "c \<in> set (dispatched (ClearAg_http this tr config))"
  then have c: "ClearAg_http_config this config = Inr c"
    by (rule ClearAg_http_dispatched)
  show "lookup (lookup c ''params'') ''app_id'' =
        (if truthy (appId this) then appId this
         else if truthy (lookup config ''appId'') then lookup config ''appId'' else JNull)"
    by (rule ClearAg_http_config_Inr(1) [OF c])
  show "lookup (lookup c ''params'') ''app_key'' =
        (if truthy (appKey this) then appKey this
         else if truthy (lookup config ''appKey'') then lookup config ''appKey'' else JNull)"
    by (rule ClearAg_http_config_Inr(2) [OF c])
next
  fix c assume "c \<in> set (dispatched (ClearAgApi_request that sf tr' endpoint config'))"
  then have c: "ClearAgApi_request_config that endpoint config' = Inr c"
    by (rule ClearAgApi_request_dispatched)
  show "lookup (lookup c ''params'') ''app_id'' =
        (if truthy (appId that) then appId that
         else if truthy (lookup config' ''appId'') then lookup config' ''appId'' else JNull)"
    by (rule ClearAgApi_request_config_Inr(1) [OF c])
  show "lookup (lookup c ''params'') ''app_key'' =
        (if truthy (appKey that) then appKey that
         else if truthy (lookup config' ''appKey'') then lookup config' ''appKey'' else JNull)"
    by (rule ClearAgApi_request_config_Inr(2) [OF c])
qed

theorem credentials_injected_witness:
  "(\<exists>c. dispatched (ClearAg_http
            \<lparr> appId = JStr [], appKey = JStr ''K'', host = JStr ''https://h'', debug = JBool False \<rparr>
            (\<lambda>_. Resolves \<lparr> status = 200, statusText = ''OK'', data = JNull, request = JUndefined \<rparr>)
            (JObj [(''params'', JObj [(''app_id'', JStr ''spoof''), (''app_key'', JStr ''spoof'')]),
                   (''appId'', JStr ''o''), (''appKey'', JStr ''p'')])) = [c] \<and>
        lookup (lookup c ''params'') ''app_id'' = JStr ''o'' \<and>
        lookup (lookup c ''params'') ''app_key'' = JStr ''K'') \<and>
   (\<exists>c. dispatched (ClearAgApi_request
            \<lparr> appId = JStr [], appKey = JStr ''K'', host = JStr ''https://h'',
              name = ''clearag-api'', logger = None, loggerConfig = JUndefined,
              logLevel = JStr ''verbose'', responseType = JStr ''json'', timeout = JNum 180000 0 \<rparr>
            (\<lambda>_. JUndefined)
            (\<lambda>_. Resolves \<lparr> status = 200, statusText = ''OK'', data = JNull, request = JUndefined \<rparr>)
            ''/x''
            (JObj [(''params'', JObj [(''app_id'', JStr ''spoof''), (''app_key'', JStr ''spoof'')])])) = [c] \<and>
        lookup (lookup c ''params'') ''app_id'' = JNull \<and>
        lookup (lookup c ''params'') ''app_key'' = JStr ''K'')"
proof -
  let ?A = "\<lparr> appId = JStr [], appKey = JStr ''K'', host = JStr ''https://h'', debug = JBool False \<rparr>"
  let ?tr = "\<lambda>_::jsval. Resolves \<lparr> status = 200, statusText = ''OK'', data = JNull, request = JUndefined \<rparr>"
  let ?cfg = "JObj [(''params'', JObj [(''app_id'', JStr ''spoof''), (''app_key'', JStr ''spoof'')]),
                   (''appId'', JStr ''o''), (''appKey'', JStr ''p'')]"
  let ?B = "\<lparr> appId = JStr [], appKey = JStr ''K'', host = JStr ''https://h'',
              name = ''clearag-api'', logger = None, loggerConfig = JUndefined,
              logLevel = JStr ''verbose'', responseType = JStr ''json'', timeout = JNum 180000 0 \<rparr>"
  let ?cfg' = "JObj [(''params'', JObj [(''app_id'', JStr ''spoof''), (''app_key'', JStr ''spoof'')])]"
  have "length (dispatched (ClearAg_http ?A ?tr ?cfg)) = Suc 0" by code_simp
  then have a: "\<exists>c. dispatched (ClearAg_http ?A ?tr ?cfg) = [c]"
    by (simp add: length_Suc_conv)
  have "length (dispatched (ClearAgApi_request ?B (\<lambda>_. JUndefined) ?tr ''/x'' ?cfg')) = Suc 0"
    by code_simp
  then have b: "\<exists>c. dispatched (ClearAgApi_request ?B (\<lambda>_. JUndefined) ?tr ''/x'' ?cfg') = [c]"
    by (simp add: length_Suc_conv)
  from a obtain c where c: "dispatched (ClearAg_http ?A ?tr ?cfg) = [c]" ..
  from b obtain c' where c': "dispatched (ClearAgApi_request ?B (\<lambda>_. JUndefined) ?tr ''/x'' ?cfg') = [c']" ..
  note t = credentials_injected [of ?A ?tr ?cfg ?B "\<lambda>_. JUndefined" ?tr "''/x''" ?cfg']
  from t c have "lookup (lookup c ''params'') ''app_id'' = JStr ''o'' \<and>
        lookup (lookup c ''params'') ''app_key'' = JStr ''K''" by simp
  moreover from t c' have "lookup (lookup c' ''params'') ''app_id'' = JNull \<and>
        lookup (lookup c' ''params'') ''app_key'' = JStr ''K''" by simp
  ultimately show ?thesis using c c' by blast
qed


subsection \<open>The precondition of the injection\<close>


lemma ClearAg_http_dispatches:
  "ClearAg_http_config this config = Inr c \<Longrightarrow> dispatched (ClearAg_http this tr config) = [c]"
  by (simp add: ClearAg_http_def split: transport_outcome.splits)

lemma ClearAgApi_request_dispatches:
  "ClearAgApi_request_config this endpoint config = Inr c \<Longrightarrow>
   dispatched (ClearAgApi_request this sf tr endpoint config) = [c]"
  by (simp add: ClearAgApi_request_def
      split: sum.splits transport_outcome.splits exn.splits option.splits)

lemma set_prop2_nullish:
  "nullish (lookup v a) \<Longrightarrow> set_prop2 v a b x = Inl TypeError"
  by (cases "lookup v a") (auto simp: set_prop2_def get_prop_def nullish_def)

lemma ClearAg_http_config_absent:
  "nullish (lookup config ''params'') \<Longrightarrow> ClearAg_http_config this config = Inl TypeError"
  by (simp add: ClearAg_http_config_def Let_def and_then_def set_prop2_nullish js_or_lookup
      del: lookup.simps)

lemma ClearAgApi_request_config_absent:
  assumes "nullish (lookup config ''params'')"
  shows "ClearAgApi_request_config this endpoint config = Inl TypeError"
proof -
  let ?c0 = "js_or config (JObj [])"
  show ?thesis
  proof (cases "set_prop ?c0 ''url'' (JStr (ClearAgApi_buildApiUrl this endpoint))")
    case (Inl e)
    then have "e = TypeError" by (cases ?c0) auto
    with Inl show ?thesis by (simp add: ClearAgApi_request_config_def Let_def and_then_def)
  next
    case (Inr c1)
    then obtain ps where c1: "c1 = JObj (AList.update ''url'' (JStr (ClearAgApi_buildApiUrl this endpoint)) ps)"
      using set_prop_Inr by blast
    then obtain c2 where c2: "set_prop c1 ''responseType'' (responseType this) = Inr c2"
      by simp
    have "lookup c2 ''params'' = lookup config ''params''"
      using set_prop_lookup [OF Inr, of "''params''"] set_prop_lookup [OF c2, of "''params''"]
      by (simp add: js_or_lookup)
    with assms have "nullish (lookup c2 ''params'')" by simp
    then have "set_prop2 c2 ''params'' ''app_id'' x = Inl TypeError" for x
      by (rule set_prop2_nullish)
    with Inr c2 show ?thesis
      by (simp add: ClearAgApi_request_config_def Let_def and_then_def)
  qed
qed

lemma ClearAg_httpGet_config:
  assumes "\<not> truthy params \<or> (\<exists>ps. params = JObj ps)"
  shows "\<exists>c. ClearAg_http_config this
           (JObj [(''method'', m), (''url'', u), (''params'', js_or params (JObj [])),
                  (''appId'', a), (''appKey'', k)]) = Inr c"
proof -
  from assms obtain qs where "js_or params (JObj []) = JObj qs"
    by (auto simp: js_or_def)
  then show ?thesis
    by (simp add: ClearAg_http_config_def Let_def and_then_def js_or_def set_prop2_obj)
qed

lemma ClearAgApi_get_config:
  assumes "\<not> truthy params \<or> (\<exists>ps. params = JObj ps)"
  shows "\<exists>c. ClearAgApi_request_config this endpoint
           (JObj [(''method'', m), (''params'', js_or params (JObj [])),
                  (''appId'', a), (''appKey'', k)]) = Inr c"
proof -
  from assms obtain qs where "js_or params (JObj []) = JObj qs"
    by (auto simp: js_or_def)
  then show ?thesis
    by (simp add: ClearAgApi_request_config_def Let_def and_then_def js_or_def set_prop2_obj)
qed

text \<open>
  Claim C10. In both classes the injection writes into \<^verbatim>\<open>config.params\<close>: when the
  configuration has no \<^verbatim>\<open>params\<close> (the property is \<^verbatim>\<open>undefined\<close> or
  \<^verbatim>\<open>null\<close>), the call ends in a \<^verbatim>\<open>TypeError\<close> and nothing is handed to the
  transport. The GET helpers put \<^verbatim>\<open>params || {}\<close> there, so for every
  \<^verbatim>\<open>params\<close> of the documented type (an object, or left out; any falsy value
  does as well) the configuration is prepared without error and the transport is called
  once with it.
\<close>

theorem injection_needs_params:
  "(nullish (lookup config ''params'') \<longrightarrow>
      result (ClearAg_http this tr config) = Inl TypeError \<and>
      dispatched (ClearAg_http this tr config) = [] \<and>
      result (ClearAgApi_request that sf tr' endpoint config) = Inl TypeError \<and>
      dispatched (ClearAgApi_request that sf tr' endpoint config) = []) \<and>
   (\<not> truthy params \<or> (\<exists>ps. params = JObj ps) \<longrightarrow>
      (\<exists>c. ClearAg_http_config this
              (JObj [(''method'', JStr ''get''), (''url'', JStr (ClearAg_buildApiUrl this endpoint)),
                     (''params'', js_or params (JObj [])), (''appId'', a), (''appKey'', k)]) = Inr c \<and>
           dispatched (ClearAg_httpGet this tr endpoint params a k) = [c]) \<and>
      (\<exists>c. ClearAgApi_request_config that endpoint
              (JObj [(''method'', JStr ''GET''), (''params'', js_or params (JObj [])),
                     (''appId'', a), (''appKey'', k)]) = Inr c \<and>
           dispatched (ClearAgApi_get that sf tr' endpoint params a k) = [c]))"
proof (intro conjI impI)
  assume n: "nullish (lookup config ''params'')"
  show "result (ClearAg_http this tr config) = Inl TypeError"
    and "dispatched (ClearAg_http this tr config) = []"
    by (simp_all add: ClearAg_http_def ClearAg_http_config_absent [OF n])
  show "result (ClearAgApi_request that sf tr' endpoint config) = Inl TypeError"
    and "dispatched (ClearAgApi_request that sf tr' endpoint config) = []"
    by (simp_all add: ClearAgApi_request_def ClearAgApi_request_config_absent [OF n])
next
  assume p: "\<not> truthy params \<or> (\<exists>ps. params = JObj ps)"
  from ClearAg_httpGet_config [OF p] obtain c where
    c: "ClearAg_http_config this
              (JObj [(''method'', JStr ''get''), (''url'', JStr (ClearAg_buildApiUrl this endpoint)),
                     (''params'', js_or params (JObj [])), (''appId'', a), (''appKey'', k)]) = Inr c"
    by blast
  then show "\<exists>c. ClearAg_http_config this
              (JObj [(''method'', JStr ''get''), (''url'', JStr (ClearAg_buildApiUrl this endpoint)),
                     (''params'', js_or params (JObj [])), (''appId'', a), (''appKey'', k)]) = Inr c \<and>
           dispatched (ClearAg_httpGet this tr endpoint params a k) = [c]"
    using ClearAg_http_dispatches [OF c] by (simp add: ClearAg_httpGet_def)
next
  assume p: "\<not> truthy params \<or> (\<exists>ps. params = JObj ps)"
  from ClearAgApi_get_config [OF p] obtain c where
    c: "ClearAgApi_request_config that endpoint
              (JObj [(''method'', JStr ''GET''), (''params'', js_or params (JObj [])),
                     (''appId'', a), (''appKey'', k)]) = Inr c"
    by blast
  then show "\<exists>c. ClearAgApi_request_config that endpoint
              (JObj [(''method'', JStr ''GET''), (''params'', js_or params (JObj [])),
                     (''appId'', a), (''appKey'', k)]) = Inr c \<and>
           dispatched (ClearAgApi_get that sf tr' endpoint params a k) = [c]"
    using ClearAgApi_request_dispatches [OF c] by (simp add: ClearAgApi_get_def)
qed


theorem injection_needs_params_witness:
  "result (ClearAg_http
       \<lparr> appId = JStr ''id'', appKey = JStr ''key'', host = JStr ''https://h'',
          debug = JBool False \<rparr>
       (\<lambda>_. Rejects (Exn ''timeout'' None)) (JObj [(''method'', JStr ''GET'')])) = Inl TypeError \<and>
   dispatched (ClearAg_http
       \<lparr> appId = JStr ''id'', appKey = JStr ''key'', host = JStr ''https://h'',
          debug = JBool False \<rparr>
       (\<lambda>_. Rejects (Exn ''timeout'' None)) (JObj [(''method'', JStr ''GET'')])) = [] \<and>
   result (ClearAgApi_request
       \<lparr> appId = JStr ''id'', appKey = JStr ''key'', host = JStr ''https://h'',
          name = ''clearag-api'', logger = None, loggerConfig = JUndefined,
          logLevel = JStr ''verbose'', responseType = JStr ''json'', timeout = JNum 180000 0 \<rparr>
       (\<lambda>v. if v = JUndefined then JUndefined else JStr (to_string v)) (\<lambda>_. Rejects (Exn ''timeout'' None)) ''/x'' (JObj [(''method'', JStr ''GET'')])) = Inl TypeError \<and>
   dispatched (ClearAgApi_request
       \<lparr> appId = JStr ''id'', appKey = JStr ''key'', host = JStr ''https://h'',
          name = ''clearag-api'', logger = None, loggerConfig = JUndefined,
          logLevel = JStr ''verbose'', responseType = JStr ''json'', timeout = JNum 180000 0 \<rparr>
       (\<lambda>v. if v = JUndefined then JUndefined else JStr (to_string v)) (\<lambda>_. Rejects (Exn ''timeout'' None)) ''/x'' (JObj [(''method'', JStr ''GET'')])) = [] \<and>
   (\<exists>c. dispatched (ClearAg_httpGet
       \<lparr> appId = JStr ''id'', appKey = JStr ''key'', host = JStr ''https://h'',
          debug = JBool False \<rparr>
       (\<lambda>_. Rejects (Exn ''timeout'' None)) ''/x'' JUndefined JUndefined JUndefined) = [c]) \<and>
   (\<exists>c. dispatched (ClearAgApi_get
       \<lparr> appId = JStr ''id'', appKey = JStr ''key'', host = JStr ''https://h'',
          name = ''clearag-api'', logger = None, loggerConfig = JUndefined,
          logLevel = JStr ''verbose'', responseType = JStr ''json'', timeout = JNum 180000 0 \<rparr>
       (\<lambda>v. if v = JUndefined then JUndefined else JStr (to_string v)) (\<lambda>_. Rejects (Exn ''timeout'' None)) ''/x'' JUndefined JUndefined JUndefined) = [c])"
  using injection_needs_params [where config = "(JObj [(''method'', JStr ''GET'')])"
      and this = "\<lparr> appId = JStr ''id'', appKey = JStr ''key'', host = JStr ''https://h'',
          debug = JBool False \<rparr>"
      and that = "\<lparr> appId = JStr ''id'', appKey = JStr ''key'', host = JStr ''https://h'',
          name = ''clearag-api'', logger = None, loggerConfig = JUndefined,
          logLevel = JStr ''verbose'', responseType = JStr ''json'', timeout = JNum 180000 0 \<rparr>"
      and sf = "(\<lambda>v. if v = JUndefined then JUndefined else JStr (to_string v))"
      and tr = "(\<lambda>_. Rejects (Exn ''timeout'' None))"
      and tr' = "(\<lambda>_. Rejects (Exn ''timeout'' None))"
      and endpoint = "''/x''" and params = JUndefined and a = JUndefined and k = JUndefined]
  by (simp add: nullish_def) blast

subsection \<open>The strict policy\<close>

text \<open>
  Claim C3. In class ClearAg, when the configuration is prepared without error and the
  transport resolves with a response, the call returns the response's \<^verbatim>\<open>data\<close>
  (the payload alone) when the status is in \<open>[200, 300)\<close>, and otherwise raises the
  error built from the response: \<^verbatim>\<open>err.code\<close> is the status and \<^verbatim>\<open>err.meta\<close>
  is the payload. The witness runs the statuses 200, 299, 199 and 300.
\<close>

theorem strict_policy:
  assumes "ClearAg_http_config this config = Inr c" and "tr c = Resolves r"
  shows "result (ClearAg_http this tr config) =
     (if 200 \<le> status r \<and> status r < 300 then Inr (data r)
      else Inl (StatusError
                  (show_num (status r) 0 @ '' - '' @ to_string (lookup c ''url'') @ '' failed'')
                  (status r) (data r)))"
  using assms by (simp add: ClearAg_http_def ClearAg_isResponseSuccessful_def)


theorem strict_policy_witness:
  "result (ClearAg_httpGet
       \<lparr> appId = JStr ''id'', appKey = JStr ''key'', host = JStr ''https://h'', debug = JBool False \<rparr>
       (\<lambda>_. Resolves \<lparr> status = 200, statusText = ''OK'', data = JStr ''payload'',
                          request = JUndefined \<rparr>)
       ''x'' JUndefined JUndefined JUndefined) = Inr (JStr ''payload'') \<and>
   result (ClearAg_httpGet
       \<lparr> appId = JStr ''id'', appKey = JStr ''key'', host = JStr ''https://h'', debug = JBool False \<rparr>
       (\<lambda>_. Resolves \<lparr> status = 299, statusText = [], data = JStr ''payload'',
                          request = JUndefined \<rparr>)
       ''x'' JUndefined JUndefined JUndefined) = Inr (JStr ''payload'') \<and>
   result (ClearAg_httpGet
       \<lparr> appId = JStr ''id'', appKey = JStr ''key'', host = JStr ''https://h'', debug = JBool False \<rparr>
       (\<lambda>_. Resolves \<lparr> status = 199, statusText = [], data = JStr ''payload'',
                          request = JUndefined \<rparr>)
       ''x'' JUndefined JUndefined JUndefined)
     = Inl (StatusError ''199 - https://h/x failed'' 199 (JStr ''payload'')) \<and>
   result (ClearAg_httpGet
       \<lparr> appId = JStr ''id'', appKey = JStr ''key'', host = JStr ''https://h'', debug = JBool False \<rparr>
       (\<lambda>_. Resolves \<lparr> status = 300, statusText = ''Multiple Choices'', data = JStr ''payload'',
                          request = JUndefined \<rparr>)
       ''x'' JUndefined JUndefined JUndefined)
     = Inl (StatusError ''300 - https://h/x failed'' 300 (JStr ''payload''))"
proof -
  let ?A = "\<lparr> appId = JStr ''id'', appKey = JStr ''key'', host = JStr ''https://h'',
              debug = JBool False \<rparr>"
  let ?cfg = "JObj [(''method'', JStr ''get''), (''url'', JStr ''https://h/x''),
                    (''params'', JObj []), (''appId'', JUndefined), (''appKey'', JUndefined)]"
  let ?c = "JObj [(''method'', JStr ''get''), (''url'', JStr ''https://h/x''),
                  (''params'', JObj [(''app_id'', JStr ''id''), (''app_key'', JStr ''key'')]),
                  (''appId'', JUndefined), (''appKey'', JUndefined)]"
  have get: "ClearAg_httpGet ?A tr ''x'' JUndefined JUndefined JUndefined = ClearAg_http ?A tr ?cfg"
    for tr
    by (simp add: ClearAg_httpGet_def ClearAg_buildApiUrl_def js_or_def)
  have cfg: "ClearAg_http_config ?A ?cfg = Inr ?c"
    by code_simp
  have m199: "show_num 199 0 @ '' - '' @ to_string (lookup ?c ''url'') @ '' failed''
                = ''199 - https://h/x failed''"
    by code_simp
  have m300: "show_num 300 0 @ '' - '' @ to_string (lookup ?c ''url'') @ '' failed''
                = ''300 - https://h/x failed''"
    by code_simp
  note s = strict_policy [OF cfg, where tr = "\<lambda>_. Resolves r" and r = r for r, simplified]
  show ?thesis
    unfolding get
    using s [of "\<lparr> status = 200, statusText = ''OK'', data = JStr ''payload'', request = JUndefined \<rparr>"]
      s [of "\<lparr> status = 299, statusText = [], data = JStr ''payload'', request = JUndefined \<rparr>"]
      s [of "\<lparr> status = 199, statusText = [], data = JStr ''payload'', request = JUndefined \<rparr>"]
      s [of "\<lparr> status = 300, statusText = ''Multiple Choices'', data = JStr ''payload'', request = JUndefined \<rparr>"]
      m199 m300
    by simp
qed

subsection \<open>The endpoint method\<close>

lemma scenario_location:
  "to_string (JNum 4071 2) @ '', '' @ to_string (JNum (- 7401) 2) = ''40.71, -74.01''"
  by code_simp

lemma exponent_location:
  "to_string (JNum 1000000000000000000000 0) @ '', '' @ to_string (JNum 1 7) = ''1e+21, 1e-7''"
  by code_simp

lemma ClearAgApi_get_dispatched:
  "\<exists>c. dispatched (ClearAgApi_get this sf tr endpoint (JObj ps) JUndefined JUndefined) = [c] \<and>
       lookup c ''method'' = JStr ''GET'' \<and>
       lookup c ''url'' = JStr (ClearAgApi_buildApiUrl this endpoint) \<and>
       lookup c ''params'' =
         JObj (AList.update ''app_key'' (if truthy (appKey this) then appKey this else JNull)
                (AList.update ''app_id'' (if truthy (appId this) then appId this else JNull) ps))"
proof -
  let ?cfg = "JObj [(''method'', JStr ''GET''), (''params'', JObj ps),
                    (''appId'', JUndefined), (''appKey'', JUndefined)]"
  have "\<exists>c. ClearAgApi_request_config this endpoint ?cfg = Inr c \<and>
       lookup c ''method'' = JStr ''GET'' \<and>
       lookup c ''url'' = JStr (ClearAgApi_buildApiUrl this endpoint) \<and>
       lookup c ''params'' =
         JObj (AList.update ''app_key'' (if truthy (appKey this) then appKey this else JNull)
                (AList.update ''app_id'' (if truthy (appId this) then appId this else JNull) ps))"
    by (simp add: ClearAgApi_request_config_def Let_def and_then_def js_or_def set_prop2_obj)
  then show ?thesis
    using ClearAgApi_request_dispatches [of this endpoint ?cfg _ sf tr]
    by (auto simp: ClearAgApi_get_def js_or_def)
qed

lemma ClearAg_httpGet_dispatched:
  "\<exists>c. dispatched (ClearAg_httpGet this tr endpoint (JObj ps) JUndefined JUndefined) = [c] \<and>
       lookup c ''method'' = JStr ''get'' \<and>
       lookup c ''url'' = JStr (ClearAg_buildApiUrl this endpoint) \<and>
       lookup c ''params'' =
         JObj (AList.update ''app_key'' (if truthy (appKey this) then appKey this else JNull)
                (AList.update ''app_id'' (if truthy (appId this) then appId this else JNull) ps))"
proof -
  let ?cfg = "JObj [(''method'', JStr ''get''), (''url'', JStr (ClearAg_buildApiUrl this endpoint)),
                    (''params'', JObj ps), (''appId'', JUndefined), (''appKey'', JUndefined)]"
  have "\<exists>c. ClearAg_http_config this ?cfg = Inr c \<and>
       lookup c ''method'' = JStr ''get'' \<and>
       lookup c ''url'' = JStr (ClearAg_buildApiUrl this endpoint) \<and>
       lookup c ''params'' =
         JObj (AList.update ''app_key'' (if truthy (appKey this) then appKey this else JNull)
                (AList.update ''app_id'' (if truthy (appId this) then appId this else JNull) ps))"
    by (simp add: ClearAg_http_config_def Let_def and_then_def js_or_def set_prop2_obj)
  then show ?thesis
    using ClearAg_http_dispatches [of this ?cfg _ tr]
    by (auto simp: ClearAg_httpGet_def js_or_def)
qed

text \<open>
  Claim C8. The claim says that a location string, when one is supplied, is used as it is.
  The empty string is one, and it is not used: with the scenario's other arguments and the
  location \<^verbatim>\<open>''\<close>, the request of either class carries the location
  \<^verbatim>\<open>40.71, -74.01\<close>.
\<close>

theorem empty_location_not_verbatim:
  "dispatched (ClearAg_dailyHistoricalAirTemperature
       \<lparr> appId = JStr ''id'', appKey = JStr ''key'', host = JStr ''https://h'', debug = JBool False \<rparr>
       (\<lambda>_. Resolves \<lparr> status = 200, statusText = ''OK'', data = JNum 1 0, request = JUndefined \<rparr>)
       (JNum 1577836800 0) (JNum 1577923200 0) (JNum 4071 2) (JNum (- 7401) 2) (JStr [])
       JUndefined)
     = [JObj [(''method'', JStr ''get''),
              (''url'', JStr ''https://h/v1.2/historical/daily/air_temp''),
              (''params'',
                 JObj [(''start'', JNum 1577836800 0), (''end'', JNum 1577923200 0),
                       (''location'', JStr ''40.71, -74.01''), (''unitcode'', JUndefined),
                       (''app_id'', JStr ''id''), (''app_key'', JStr ''key'')]),
              (''appId'', JUndefined), (''appKey'', JUndefined)]] \<and>
   dispatched (ClearAgApi_dailyHistoricalAirTemperature
       \<lparr> appId = JStr ''id'', appKey = JStr ''key'', host = JStr ''https://h'',
          name = ''clearag-api'', logger = None, loggerConfig = JUndefined,
          logLevel = JStr ''verbose'', responseType = JStr ''json'', timeout = JNum 180000 0 \<rparr>
       (\<lambda>v. if v = JUndefined then JUndefined else JStr (to_string v)) (\<lambda>_. Resolves \<lparr> status = 200, statusText = ''OK'', data = JNum 1 0, request = JUndefined \<rparr>)
       (JNum 1577836800 0) (JNum 1577923200 0) (JNum 4071 2) (JNum (- 7401) 2) (JStr [])
       JUndefined)
     = [JObj [(''method'', JStr ''GET''),
              (''params'',
                 JObj [(''start'', JNum 1577836800 0), (''end'', JNum 1577923200 0),
                       (''location'', JStr ''40.71, -74.01''), (''unitcode'', JUndefined),
                       (''app_id'', JStr ''id''), (''app_key'', JStr ''key'')]),
              (''appId'', JUndefined), (''appKey'', JUndefined),
              (''url'', JStr ''https://h/v1.2/historical/daily/air_temp''),
              (''responseType'', JStr ''json''), (''timeout'', JNum 180000 0)]]"
  by code_simp

text \<open>
  Claim C8, as amended. In both classes, \<^verbatim>\<open>dailyHistoricalAirTemperature\<close> hands its
  GET helper the path \<^verbatim>\<open>/v1.2/historical/daily/air_temp\<close> and the bag of
  \<^verbatim>\<open>start\<close>, \<^verbatim>\<open>end\<close>, \<^verbatim>\<open>location\<close> and \<^verbatim>\<open>unitcode\<close>, where the
  location is the argument when that is truthy (a string that is not empty) and the
  latitude, a comma, a space and the longitude otherwise, the empty string included. In
  the scenario (start 1577836800, end 1577923200, latitude 40.71, longitude -74.01, nothing
  else) the bag's location is \<^verbatim>\<open>40.71, -74.01\<close> and its unit code is
  \<^verbatim>\<open>undefined\<close>, and for a host string \<open>h\<close> one request is dispatched: method GET
  (written \<^verbatim>\<open>get\<close> in class ClearAg), the URL \<open>h\<close> followed by the path, and the bag
  with the two credentials added as its parameters.
\<close>

theorem dailyHistoricalAirTemperature_scenario:
  "ClearAgApi_dailyHistoricalAirTemperature that sf tr' start end' latitude longitude location unitcode
     = ClearAgApi_get that sf tr' ''/v1.2/historical/daily/air_temp''
         (JObj [(''start'', start), (''end'', end'),
                (''location'', if truthy location then location
                               else JStr (to_string latitude @ '', '' @ to_string longitude)),
                (''unitcode'', unitcode)]) JUndefined JUndefined \<and>
   ClearAg_dailyHistoricalAirTemperature this tr start end' latitude longitude location unitcode
     = ClearAg_httpGet this tr ''/v1.2/historical/daily/air_temp''
         (JObj [(''start'', start), (''end'', end'),
                (''location'', if truthy location then location
                               else JStr (to_string latitude @ '', '' @ to_string longitude)),
                (''unitcode'', unitcode)]) JUndefined JUndefined \<and>
   ClearAgApi_dailyHistoricalAirTemperature that sf tr' (JNum 1577836800 0) (JNum 1577923200 0)
       (JNum 4071 2) (JNum (- 7401) 2) JUndefined JUndefined
     = ClearAgApi_get that sf tr' ''/v1.2/historical/daily/air_temp''
         (JObj [(''start'', JNum 1577836800 0), (''end'', JNum 1577923200 0),
                (''location'', JStr ''40.71, -74.01''), (''unitcode'', JUndefined)])
         JUndefined JUndefined \<and>
   ClearAg_dailyHistoricalAirTemperature this tr (JNum 1577836800 0) (JNum 1577923200 0)
       (JNum 4071 2) (JNum (- 7401) 2) JUndefined JUndefined
     = ClearAg_httpGet this tr ''/v1.2/historical/daily/air_temp''
         (JObj [(''start'', JNum 1577836800 0), (''end'', JNum 1577923200 0),
                (''location'', JStr ''40.71, -74.01''), (''unitcode'', JUndefined)])
         JUndefined JUndefined \<and>
   (\<exists>c. dispatched (ClearAgApi_dailyHistoricalAirTemperature (that\<lparr>host := JStr h\<rparr>) sf tr'
            (JNum 1577836800 0) (JNum 1577923200 0) (JNum 4071 2) (JNum (- 7401) 2)
            JUndefined JUndefined) = [c] \<and>
        lookup c ''method'' = JStr ''GET'' \<and>
        lookup c ''url'' = JStr (h @ ''/v1.2/historical/daily/air_temp'') \<and>
        lookup c ''params'' =
          JObj [(''start'', JNum 1577836800 0), (''end'', JNum 1577923200 0),
                (''location'', JStr ''40.71, -74.01''), (''unitcode'', JUndefined),
                (''app_id'', if truthy (appId that) then appId that else JNull),
                (''app_key'', if truthy (appKey that) then appKey that else JNull)]) \<and>
   (\<exists>c. dispatched (ClearAg_dailyHistoricalAirTemperature (this\<lparr>host := JStr h\<rparr>) tr
            (JNum 1577836800 0) (JNum 1577923200 0) (JNum 4071 2) (JNum (- 7401) 2)
            JUndefined JUndefined) = [c] \<and>
        lookup c ''method'' = JStr ''get'' \<and>
        lookup c ''url'' = JStr (h @ ''/v1.2/historical/daily/air_temp'') \<and>
        lookup c ''params'' =
          JObj [(''start'', JNum 1577836800 0), (''end'', JNum 1577923200 0),
                (''location'', JStr ''40.71, -74.01''), (''unitcode'', JUndefined),
                (''app_id'', if truthy (appId this) then appId this else JNull),
                (''app_key'', if truthy (appKey this) then appKey this else JNull)])"
proof -
  have bagA: "ClearAgApi_dailyHistoricalAirTemperature x sf tr' (JNum 1577836800 0) (JNum 1577923200 0)
       (JNum 4071 2) (JNum (- 7401) 2) JUndefined JUndefined
     = ClearAgApi_get x sf tr' ''/v1.2/historical/daily/air_temp''
         (JObj [(''start'', JNum 1577836800 0), (''end'', JNum 1577923200 0),
                (''location'', JStr ''40.71, -74.01''), (''unitcode'', JUndefined)])
         JUndefined JUndefined" for x
    using scenario_location
    by (simp add: ClearAgApi_dailyHistoricalAirTemperature_def del: to_string.simps)
  have bagB: "ClearAg_dailyHistoricalAirTemperature y tr (JNum 1577836800 0) (JNum 1577923200 0)
       (JNum 4071 2) (JNum (- 7401) 2) JUndefined JUndefined
     = ClearAg_httpGet y tr ''/v1.2/historical/daily/air_temp''
         (JObj [(''start'', JNum 1577836800 0), (''end'', JNum 1577923200 0),
                (''location'', JStr ''40.71, -74.01''), (''unitcode'', JUndefined)])
         JUndefined JUndefined" for y
    using scenario_location
    by (simp add: ClearAg_dailyHistoricalAirTemperature_def del: to_string.simps)
  have dA: "\<exists>c. dispatched (ClearAgApi_dailyHistoricalAirTemperature (that\<lparr>host := JStr h\<rparr>) sf tr'
            (JNum 1577836800 0) (JNum 1577923200 0) (JNum 4071 2) (JNum (- 7401) 2)
            JUndefined JUndefined) = [c] \<and>
        lookup c ''method'' = JStr ''GET'' \<and>
        lookup c ''url'' = JStr (h @ ''/v1.2/historical/daily/air_temp'') \<and>
        lookup c ''params'' =
          JObj [(''start'', JNum 1577836800 0), (''end'', JNum 1577923200 0),
                (''location'', JStr ''40.71, -74.01''), (''unitcode'', JUndefined),
                (''app_id'', if truthy (appId that) then appId that else JNull),
                (''app_key'', if truthy (appKey that) then appKey that else JNull)]"
    unfolding bagA
    using ClearAgApi_get_dispatched [of "that\<lparr>host := JStr h\<rparr>" sf tr'
        "''/v1.2/historical/daily/air_temp''"
        "[(''start'', JNum 1577836800 0), (''end'', JNum 1577923200 0),
          (''location'', JStr ''40.71, -74.01''), (''unitcode'', JUndefined)]"]
    by (simp add: ClearAgApi_buildApiUrl_def cong: if_cong)
  have dB: "\<exists>c. dispatched (ClearAg_dailyHistoricalAirTemperature (this\<lparr>host := JStr h\<rparr>) tr
            (JNum 1577836800 0) (JNum 1577923200 0) (JNum 4071 2) (JNum (- 7401) 2)
            JUndefined JUndefined) = [c] \<and>
        lookup c ''method'' = JStr ''get'' \<and>
        lookup c ''url'' = JStr (h @ ''/v1.2/historical/daily/air_temp'') \<and>
        lookup c ''params'' =
          JObj [(''start'', JNum 1577836800 0), (''end'', JNum 1577923200 0),
                (''location'', JStr ''40.71, -74.01''), (''unitcode'', JUndefined),
                (''app_id'', if truthy (appId this) then appId this else JNull),
                (''app_key'', if truthy (appKey this) then appKey this else JNull)]"
    unfolding bagB
    using ClearAg_httpGet_dispatched [of "this\<lparr>host := JStr h\<rparr>" tr
        "''/v1.2/historical/daily/air_temp''"
        "[(''start'', JNum 1577836800 0), (''end'', JNum 1577923200 0),
          (''location'', JStr ''40.71, -74.01''), (''unitcode'', JUndefined)]"]
    by (simp add: ClearAg_buildApiUrl_def cong: if_cong)
  show ?thesis
    using bagA [of that] bagB [of this] dA dB
    by (simp add: ClearAgApi_dailyHistoricalAirTemperature_def
        ClearAg_dailyHistoricalAirTemperature_def del: to_string.simps)
qed

text \<open>
  Claim C9. In both classes, a falsy \<^verbatim>\<open>location\<close> (the empty string,
  \<^verbatim>\<open>undefined\<close>, \<^verbatim>\<open>null\<close>, zero, \<^verbatim>\<open>NaN\<close>, \<^verbatim>\<open>false\<close>) is not passed
  on: the GET helper receives the string made of the latitude, a comma, a space and the
  longitude, each rendered as a template literal renders it (a number in the notation
  Number::toString gives it, plain or exponent). A truthy \<^verbatim>\<open>location\<close> is passed on
  as it is.
\<close>

theorem falsy_location_replaced:
  "(\<not> truthy location \<longrightarrow>
      ClearAgApi_dailyHistoricalAirTemperature that sf tr' start end' latitude longitude
          location unitcode
        = ClearAgApi_get that sf tr' ''/v1.2/historical/daily/air_temp''
            (JObj [(''start'', start), (''end'', end'),
                   (''location'', JStr (to_string latitude @ '', '' @ to_string longitude)),
                   (''unitcode'', unitcode)]) JUndefined JUndefined \<and>
      ClearAg_dailyHistoricalAirTemperature this tr start end' latitude longitude
          location unitcode
        = ClearAg_httpGet this tr ''/v1.2/historical/daily/air_temp''
            (JObj [(''start'', start), (''end'', end'),
                   (''location'', JStr (to_string latitude @ '', '' @ to_string longitude)),
                   (''unitcode'', unitcode)]) JUndefined JUndefined) \<and>
   (truthy location \<longrightarrow>
      ClearAgApi_dailyHistoricalAirTemperature that sf tr' start end' latitude longitude
          location unitcode
        = ClearAgApi_get that sf tr' ''/v1.2/historical/daily/air_temp''
            (JObj [(''start'', start), (''end'', end'), (''location'', location),
                   (''unitcode'', unitcode)]) JUndefined JUndefined \<and>
      ClearAg_dailyHistoricalAirTemperature this tr start end' latitude longitude
          location unitcode
        = ClearAg_httpGet this tr ''/v1.2/historical/daily/air_temp''
            (JObj [(''start'', start), (''end'', end'), (''location'', location),
                   (''unitcode'', unitcode)]) JUndefined JUndefined)"
  by (simp add: ClearAgApi_dailyHistoricalAirTemperature_def
      ClearAg_dailyHistoricalAirTemperature_def del: to_string.simps)

theorem falsy_location_replaced_witness:
  "ClearAg_dailyHistoricalAirTemperature
       \<lparr> appId = JStr ''id'', appKey = JStr ''key'', host = JStr ''https://h'', debug = JBool False \<rparr>
       (\<lambda>_. Rejects (Exn ''timeout'' None))
       (JNum 1577836800 0) (JNum 1577923200 0) (JNum 4071 2) (JNum (- 7401) 2) (JStr [])
       (JStr ''si-std'')
     = ClearAg_httpGet
         \<lparr> appId = JStr ''id'', appKey = JStr ''key'', host = JStr ''https://h'', debug = JBool False \<rparr>
         (\<lambda>_. Rejects (Exn ''timeout'' None))
         ''/v1.2/historical/daily/air_temp''
         (JObj [(''start'', JNum 1577836800 0), (''end'', JNum 1577923200 0),
                (''location'', JStr ''40.71, -74.01''), (''unitcode'', JStr ''si-std'')])
         JUndefined JUndefined \<and>
   ClearAg_dailyHistoricalAirTemperature
       \<lparr> appId = JStr ''id'', appKey = JStr ''key'', host = JStr ''https://h'', debug = JBool False \<rparr>
       (\<lambda>_. Rejects (Exn ''timeout'' None))
       (JNum 1577836800 0) (JNum 1577923200 0) (JNum 4071 2) (JNum (- 7401) 2)
       (JStr ''[(40.71,-74.01),(41,-75)]'') (JStr ''si-std'')
     = ClearAg_httpGet
         \<lparr> appId = JStr ''id'', appKey = JStr ''key'', host = JStr ''https://h'', debug = JBool False \<rparr>
         (\<lambda>_. Rejects (Exn ''timeout'' None))
         ''/v1.2/historical/daily/air_temp''
         (JObj [(''start'', JNum 1577836800 0), (''end'', JNum 1577923200 0),
                (''location'', JStr ''[(40.71,-74.01),(41,-75)]''), (''unitcode'', JStr ''si-std'')])
         JUndefined JUndefined \<and>
   ClearAgApi_dailyHistoricalAirTemperature
       \<lparr> appId = JStr ''id'', appKey = JStr ''key'', host = JStr ''https://h'',
          name = ''clearag-api'', logger = None, loggerConfig = JUndefined,
          logLevel = JStr ''verbose'', responseType = JStr ''json'', timeout = JNum 180000 0 \<rparr>
       (\<lambda>v. if v = JUndefined then JUndefined else JStr (to_string v)) (\<lambda>_. Rejects (Exn ''timeout'' None))
       (JNum 1577836800 0) (JNum 1577923200 0) (JNum 1000000000000000000000 0) (JNum 1 7)
       JUndefined (JStr ''si-std'')
     = ClearAgApi_get
         \<lparr> appId = JStr ''id'', appKey = JStr ''key'', host = JStr ''https://h'',
          name = ''clearag-api'', logger = None, loggerConfig = JUndefined,
          logLevel = JStr ''verbose'', responseType = JStr ''json'', timeout = JNum 180000 0 \<rparr>
         (\<lambda>v. if v = JUndefined then JUndefined else JStr (to_string v)) (\<lambda>_. Rejects (Exn ''timeout'' None))
         ''/v1.2/historical/daily/air_temp''
         (JObj [(''start'', JNum 1577836800 0), (''end'', JNum 1577923200 0),
                (''location'', JStr ''1e+21, 1e-7''), (''unitcode'', JStr ''si-std'')])
         JUndefined JUndefined"
proof -
  note t = falsy_location_replaced [where
      this = "\<lparr> appId = JStr ''id'', appKey = JStr ''key'', host = JStr ''https://h'', debug = JBool False \<rparr>"
      and that = "\<lparr> appId = JStr ''id'', appKey = JStr ''key'', host = JStr ''https://h'',
          name = ''clearag-api'', logger = None, loggerConfig = JUndefined,
          logLevel = JStr ''verbose'', responseType = JStr ''json'', timeout = JNum 180000 0 \<rparr>"
      and sf = "(\<lambda>v. if v = JUndefined then JUndefined else JStr (to_string v))"
      and tr = "(\<lambda>_. Rejects (Exn ''timeout'' None))" and tr' = "(\<lambda>_. Rejects (Exn ''timeout'' None))"
      and start = "JNum 1577836800 0" and end' = "JNum 1577923200 0"
      and unitcode = "JStr ''si-std''"]
  note u = t [where latitude = "JNum 4071 2" and longitude = "JNum (- 7401) 2"]
  show ?thesis
    using u [where location = "JStr []"] u [where location = "JStr ''[(40.71,-74.01),(41,-75)]''"]
      t [where latitude = "JNum 1000000000000000000000 0" and longitude = "JNum 1 7"
          and location = JUndefined]
      scenario_location exponent_location
    by (simp del: to_string.simps)
qed

subsection \<open>The log\<close>

lemma compact_Cons:
  "compact (x # xs) = (if truthy x then x # compact xs else compact xs)"
  by (simp add: compact_def)

lemma writeLog_no_logger:
  "logger this = None \<Longrightarrow> ClearAgApi_writeLog this sf endpoint cfg r lv = Inr []"
  by (simp add: ClearAgApi_writeLog_def Let_def)

lemma writeLog_logger:
  assumes "logger this = Some methods"
  shows "ClearAgApi_writeLog this sf endpoint cfg r lv =
     (if nullish cfg \<or> nullish (loggerConfig this) \<or>
         truthy (lookup (loggerConfig this) ''url'') \<or>
         (truthy (lookup (loggerConfig this) ''params'') \<and> nullish (request r)) \<or>
         to_string (if lv = JUndefined then logLevel this else lv) \<notin> set methods
      then Inl TypeError
      else Inr [(to_string (if lv = JUndefined then logLevel this else lv),
                 join (compact
                   [JStr (''['' @ name this @ '']''), lookup cfg ''method'',
                    if truthy (lookup (loggerConfig this) ''params'')
                    then lookup (request r) ''path'' else JStr endpoint,
                    if truthy (lookup (loggerConfig this) ''data'')
                    then sf (lookup cfg ''data'') else JNull,
                    JStr (show_num (status r) 0 @ '' '' @ statusText r),
                    if truthy (lookup (loggerConfig this) ''response'')
                    then sf (data r) else JNull]) '' '')])"
  using assms
  by (simp add: ClearAgApi_writeLog_def Let_def and_then_def get_prop_def compact_Cons
      del: lookup.simps)

lemma writeLog_lines:
  "ClearAgApi_writeLog this sf endpoint cfg r lv = Inr lines \<Longrightarrow>
   length lines = (if logger this = None then 0 else 1)"
  by (cases "logger this")
     (auto simp: writeLog_no_logger writeLog_logger simp del: lookup.simps split: if_splits)

text \<open>
  Claim C7. The claim says the path segment appears only if the \<^verbatim>\<open>params\<close> flag is
  enabled. With the \<^verbatim>\<open>response\<close> flag alone, the emitted line still has the raw
  endpoint path \<^verbatim>\<open>/p\<close> between the method and the status.
\<close>

theorem path_segment_without_params_flag:
  "emitted (ClearAgApi_get
     \<lparr> appId = JStr ''id'', appKey = JStr ''key'', host = JStr ''https://h'',
       name = ''clearag-api'', logger = Some [''verbose'', ''error''], loggerConfig = JObj [(''response'', JBool True)],
       logLevel = JStr ''verbose'', responseType = JStr ''json'', timeout = JNum 180000 0 \<rparr>
     (\<lambda>v. if v = JUndefined then JUndefined else JStr (to_string v))
     (\<lambda>_. Resolves \<lparr> status = 200, statusText = ''OK'', data = JNum 1 0, request = JUndefined \<rparr>)
     ''/p'' (JObj []) JUndefined JUndefined)
   = [(''verbose'', ''[clearag-api] GET /p 200 OK 1'')]"
  by code_simp

text \<open>
  Claim C7, as amended. Every line \<^verbatim>\<open>_writeLog\<close> hands to the sink is the truthy
  ones among the following segments, in this order and joined by single spaces: the
  bracketed client name; the method; the path, which is there whatever the
  \<^verbatim>\<open>params\<close> flag says (the flag chooses between the path of the response's request
  and the raw endpoint); the serialized request body, only if the \<^verbatim>\<open>data\<close> flag is
  enabled; status and status text; the serialized response body, only if the
  \<^verbatim>\<open>response\<close> flag is enabled. No line has a URL segment. With the
  \<^verbatim>\<open>response\<close> flag alone, a non-empty method, endpoint and serialized body, the
  line is name, method, endpoint, status, status text and body.
\<close>

theorem log_line_fields:
  assumes "ClearAgApi_writeLog this sf endpoint cfg r lv = Inr [(level, line)]"
  shows "line = join (compact
           [JStr (''['' @ name this @ '']''), lookup cfg ''method'',
            if truthy (lookup (loggerConfig this) ''params'')
            then lookup (request r) ''path'' else JStr endpoint,
            if truthy (lookup (loggerConfig this) ''data'')
            then sf (lookup cfg ''data'') else JNull,
            JStr (show_num (status r) 0 @ '' '' @ statusText r),
            if truthy (lookup (loggerConfig this) ''response'')
            then sf (data r) else JNull]) '' '' \<and>
         (\<not> truthy (lookup (loggerConfig this) ''params'') \<and>
          \<not> truthy (lookup (loggerConfig this) ''data'') \<and>
          truthy (lookup (loggerConfig this) ''response'') \<and>
          lookup cfg ''method'' = JStr m \<and> m \<noteq> [] \<and> endpoint \<noteq> [] \<and>
          sf (data r) = JStr b \<and> b \<noteq> [] \<longrightarrow>
          line = ''['' @ name this @ ''] '' @ m @ '' '' @ endpoint @ '' '' @
                 show_num (status r) 0 @ '' '' @ statusText r @ '' '' @ b)"
proof -
  from assms obtain methods where l: "logger this = Some methods"
    by (cases "logger this") (auto simp: writeLog_no_logger)
  have line: "line = join (compact
           [JStr (''['' @ name this @ '']''), lookup cfg ''method'',
            if truthy (lookup (loggerConfig this) ''params'')
            then lookup (request r) ''path'' else JStr endpoint,
            if truthy (lookup (loggerConfig this) ''data'')
            then sf (lookup cfg ''data'') else JNull,
            JStr (show_num (status r) 0 @ '' '' @ statusText r),
            if truthy (lookup (loggerConfig this) ''response'')
            then sf (data r) else JNull]) '' ''"
    using assms unfolding writeLog_logger [OF l] by (simp del: lookup.simps split: if_splits)
  show ?thesis
  proof (intro conjI impI)
    show "line = join (compact
           [JStr (''['' @ name this @ '']''), lookup cfg ''method'',
            if truthy (lookup (loggerConfig this) ''params'')
            then lookup (request r) ''path'' else JStr endpoint,
            if truthy (lookup (loggerConfig this) ''data'')
            then sf (lookup cfg ''data'') else JNull,
            JStr (show_num (status r) 0 @ '' '' @ statusText r),
            if truthy (lookup (loggerConfig this) ''response'')
            then sf (data r) else JNull]) '' ''"
      by (rule line)
  next
    assume "\<not> truthy (lookup (loggerConfig this) ''params'') \<and>
          \<not> truthy (lookup (loggerConfig this) ''data'') \<and>
          truthy (lookup (loggerConfig this) ''response'') \<and>
          lookup cfg ''method'' = JStr m \<and> m \<noteq> [] \<and> endpoint \<noteq> [] \<and>
          sf (data r) = JStr b \<and> b \<noteq> []"
    then show "line = ''['' @ name this @ ''] '' @ m @ '' '' @ endpoint @ '' '' @
                 show_num (status r) 0 @ '' '' @ statusText r @ '' '' @ b"
      unfolding line by (simp add: compact_def join_def nullish_def del: lookup.simps)
  qed
qed

theorem log_line_fields_witness:
  "ClearAgApi_writeLog
     \<lparr> appId = JStr ''id'', appKey = JStr ''key'', host = JStr ''https://h'',
       name = ''clearag-api'', logger = Some [''verbose'', ''error''], loggerConfig = JObj [(''response'', JBool True)],
       logLevel = JStr ''verbose'', responseType = JStr ''json'', timeout = JNum 180000 0 \<rparr>
     (\<lambda>v. if v = JUndefined then JUndefined else JStr (to_string v))
     ''/p'' (JObj [(''method'', JStr ''GET'')])
     \<lparr> status = 200, statusText = ''OK'', data = JNum 1 0, request = JUndefined \<rparr> JUndefined
   = Inr [(''verbose'', ''[clearag-api] GET /p 200 OK 1'')] \<and>
   ''[clearag-api] GET /p 200 OK 1'' =
     ''['' @ ''clearag-api'' @ ''] '' @ ''GET'' @ '' '' @ ''/p'' @ '' '' @
     show_num 200 0 @ '' '' @ ''OK'' @ '' '' @ ''1''"
proof -
  let ?T = "\<lparr> appId = JStr ''id'', appKey = JStr ''key'', host = JStr ''https://h'',
       name = ''clearag-api'', logger = Some [''verbose'', ''error''], loggerConfig = JObj [(''response'', JBool True)],
       logLevel = JStr ''verbose'', responseType = JStr ''json'', timeout = JNum 180000 0 \<rparr>"
  let ?sf = "(\<lambda>v. if v = JUndefined then JUndefined else JStr (to_string v))"
  let ?cfg = "JObj [(''method'', JStr ''GET'')]"
  let ?R = "\<lparr> status = 200, statusText = ''OK'', data = JNum 1 0, request = JUndefined \<rparr>"
  have w: "ClearAgApi_writeLog ?T ?sf ''/p'' ?cfg ?R JUndefined
             = Inr [(''verbose'', ''[clearag-api] GET /p 200 OK 1'')]"
    by code_simp
  have h: "\<not> truthy (lookup (loggerConfig ?T) ''params'') \<and>
           \<not> truthy (lookup (loggerConfig ?T) ''data'') \<and>
           truthy (lookup (loggerConfig ?T) ''response'') \<and>
           lookup ?cfg ''method'' = JStr ''GET'' \<and> ''GET'' \<noteq> [] \<and> ''/p'' \<noteq> [] \<and>
           ?sf (data ?R) = JStr ''1'' \<and> ''1'' \<noteq> []"
    by code_simp
  have "''[clearag-api] GET /p 200 OK 1'' =
          ''['' @ name ?T @ ''] '' @ ''GET'' @ '' '' @ ''/p'' @ '' '' @
          show_num (status ?R) 0 @ '' '' @ statusText ?R @ '' '' @ ''1''"
    by (rule mp [OF conjunct2 [OF log_line_fields [OF w, of "''GET''" "''1''"]] h])
  then have "''[clearag-api] GET /p 200 OK 1'' =
     ''['' @ ''clearag-api'' @ ''] '' @ ''GET'' @ '' '' @ ''/p'' @ '' '' @
     show_num 200 0 @ '' '' @ ''OK'' @ '' '' @ ''1''"
    by (simp only: ClearAgApi.simps response.simps client.simps)
  with w show ?thesis by (rule conjI)
qed

lemma writeLog_Inl:
  "ClearAgApi_writeLog this sf endpoint cfg r lv = Inl e \<Longrightarrow> e = TypeError"
  by (cases "logger this")
     (auto simp: writeLog_no_logger writeLog_logger simp del: lookup.simps split: if_splits)

lemma request_emitted_no_logger:
  "logger this = None \<Longrightarrow> emitted (ClearAgApi_request this sf tr endpoint config) = []"
  by (simp add: ClearAgApi_request_def writeLog_no_logger
      split: sum.splits transport_outcome.splits exn.splits option.splits)

lemma request_emitted_no_response:
  "ClearAgApi_request_config this endpoint config = Inr c \<Longrightarrow> tr c = Rejects (Exn msg None) \<Longrightarrow>
   emitted (ClearAgApi_request this sf tr endpoint config) = [] \<and>
   result (ClearAgApi_request this sf tr endpoint config) = Inl (Rejected (Exn msg None))"
  by (simp add: ClearAgApi_request_def)

lemma request_logged_resolved:
  assumes l: "logger this \<noteq> None"
    and c: "ClearAgApi_request_config this endpoint config = Inr c"
    and t: "tr c = Resolves r"
    and n: "result (ClearAgApi_request this sf tr endpoint config) \<noteq> Inl TypeError"
  shows "emitted (ClearAgApi_request this sf tr endpoint config) =
           [(to_string (logLevel this), join (compact
             [JStr (''['' @ name this @ '']''), lookup c ''method'',
              if truthy (lookup (loggerConfig this) ''params'')
              then lookup (request r) ''path'' else JStr endpoint,
              if truthy (lookup (loggerConfig this) ''data'')
              then sf (lookup c ''data'') else JNull,
              JStr (show_num (status r) 0 @ '' '' @ statusText r),
              if truthy (lookup (loggerConfig this) ''response'')
              then sf (data r) else JNull]) '' '')] \<and>
         result (ClearAgApi_request this sf tr endpoint config) = Inr (data r)"
proof -
  from l obtain methods where m: "logger this = Some methods" by auto
  show ?thesis
  proof (cases "ClearAgApi_writeLog this sf endpoint c r JUndefined")
    case (Inl e)
    then have "e = TypeError" by (rule writeLog_Inl)
    with Inl c t have "result (ClearAgApi_request this sf tr endpoint config) = Inl TypeError"
      by (simp add: ClearAgApi_request_def)
    with n show ?thesis by simp
  next
    case (Inr lines)
    then have "lines = [(to_string (logLevel this), join (compact
             [JStr (''['' @ name this @ '']''), lookup c ''method'',
              if truthy (lookup (loggerConfig this) ''params'')
              then lookup (request r) ''path'' else JStr endpoint,
              if truthy (lookup (loggerConfig this) ''data'')
              then sf (lookup c ''data'') else JNull,
              JStr (show_num (status r) 0 @ '' '' @ statusText r),
              if truthy (lookup (loggerConfig this) ''response'')
              then sf (data r) else JNull]) '' '')]"
      unfolding writeLog_logger [OF m] by (simp del: lookup.simps split: if_splits)
    with Inr c t show ?thesis
      by (simp add: ClearAgApi_request_def del: lookup.simps)
  qed
qed

lemma request_logged_rejected:
  assumes l: "logger this \<noteq> None"
    and c: "ClearAgApi_request_config this endpoint config = Inr c"
    and t: "tr c = Rejects (Exn msg (Some r))"
    and n: "result (ClearAgApi_request this sf tr endpoint config) \<noteq> Inl TypeError"
  shows "emitted (ClearAgApi_request this sf tr endpoint config) = [(''error'', join (compact
             [JStr (''['' @ name this @ '']''), lookup c ''method'',
              if truthy (lookup (loggerConfig this) ''params'')
              then lookup (request r) ''path'' else JStr endpoint,
              if truthy (lookup (loggerConfig this) ''data'')
              then sf (lookup c ''data'') else JNull,
              JStr (show_num (status r) 0 @ '' '' @ statusText r),
              if truthy (lookup (loggerConfig this) ''response'')
              then sf (data r) else JNull]) '' '')] \<and>
         result (ClearAgApi_request this sf tr endpoint config) =
           (if status r = 404 then Inr JNull else Inl (Rejected (Exn msg (Some r))))"
proof -
  from l obtain methods where m: "logger this = Some methods" by auto
  show ?thesis
  proof (cases "ClearAgApi_writeLog this sf endpoint c r (JStr ''error'')")
    case (Inl e)
    then have "e = TypeError" by (rule writeLog_Inl)
    with Inl c t have "result (ClearAgApi_request this sf tr endpoint config) = Inl TypeError"
      by (simp add: ClearAgApi_request_def)
    with n show ?thesis by simp
  next
    case (Inr lines)
    then have "lines = [(''error'', join (compact
             [JStr (''['' @ name this @ '']''), lookup c ''method'',
              if truthy (lookup (loggerConfig this) ''params'')
              then lookup (request r) ''path'' else JStr endpoint,
              if truthy (lookup (loggerConfig this) ''data'')
              then sf (lookup c ''data'') else JNull,
              JStr (show_num (status r) 0 @ '' '' @ statusText r),
              if truthy (lookup (loggerConfig this) ''response'')
              then sf (data r) else JNull]) '' '')]"
      unfolding writeLog_logger [OF m] by (simp del: lookup.simps split: if_splits)
    with Inr c t show ?thesis
      by (simp add: ClearAgApi_request_def del: lookup.simps)
  qed
qed

text \<open>
  Claim C4. The claim promises one emission for every call with a sink, transport failures
  with no attached response included, placed after classification so that the log reflects
  the final status. The client below has a sink and every detail flag off. When the
  transport rejects with no response attached, nothing is emitted and the transport's
  exception is the call's error. When it rejects with a 404 attached, the call returns
  \<^verbatim>\<open>null\<close> and the one line was emitted at level \<^verbatim>\<open>error\<close>: the line is written
  before the status is tested.
\<close>

theorem emission_not_once_after_classification:
  "emitted (ClearAgApi_request
       \<lparr> appId = JStr ''id'', appKey = JStr ''key'', host = JStr ''https://h'',
       name = ''clearag-api'', logger = Some [''verbose'', ''error''], loggerConfig = JObj [],
       logLevel = JStr ''verbose'', responseType = JStr ''json'', timeout = JNum 180000 0 \<rparr> (\<lambda>v. if v = JUndefined then JUndefined else JStr (to_string v))
       (\<lambda>_. Rejects (Exn ''connect ECONNREFUSED'' None)) ''/p''
       (JObj [(''method'', JStr ''GET''), (''params'', JObj [])])) = [] \<and>
   result (ClearAgApi_request
       \<lparr> appId = JStr ''id'', appKey = JStr ''key'', host = JStr ''https://h'',
       name = ''clearag-api'', logger = Some [''verbose'', ''error''], loggerConfig = JObj [],
       logLevel = JStr ''verbose'', responseType = JStr ''json'', timeout = JNum 180000 0 \<rparr> (\<lambda>v. if v = JUndefined then JUndefined else JStr (to_string v))
       (\<lambda>_. Rejects (Exn ''connect ECONNREFUSED'' None)) ''/p''
       (JObj [(''method'', JStr ''GET''), (''params'', JObj [])])) = Inl (Rejected (Exn ''connect ECONNREFUSED'' None)) \<and>
   emitted (ClearAgApi_request
       \<lparr> appId = JStr ''id'', appKey = JStr ''key'', host = JStr ''https://h'',
       name = ''clearag-api'', logger = Some [''verbose'', ''error''], loggerConfig = JObj [],
       logLevel = JStr ''verbose'', responseType = JStr ''json'', timeout = JNum 180000 0 \<rparr> (\<lambda>v. if v = JUndefined then JUndefined else JStr (to_string v))
       (\<lambda>_. Rejects (Exn ''Request failed with status code 404'' (Some \<lparr> status = 404, statusText = ''Not Found'', data = JNum 1 0, request = JUndefined \<rparr>))) ''/p''
       (JObj [(''method'', JStr ''GET''), (''params'', JObj [])])) = [(''error'', ''[clearag-api] GET /p 404 Not Found'')] \<and>
   result (ClearAgApi_request
       \<lparr> appId = JStr ''id'', appKey = JStr ''key'', host = JStr ''https://h'',
       name = ''clearag-api'', logger = Some [''verbose'', ''error''], loggerConfig = JObj [],
       logLevel = JStr ''verbose'', responseType = JStr ''json'', timeout = JNum 180000 0 \<rparr> (\<lambda>v. if v = JUndefined then JUndefined else JStr (to_string v))
       (\<lambda>_. Rejects (Exn ''Request failed with status code 404'' (Some \<lparr> status = 404, statusText = ''Not Found'', data = JNum 1 0, request = JUndefined \<rparr>))) ''/p''
       (JObj [(''method'', JStr ''GET''), (''params'', JObj [])])) = Inr JNull"
  by code_simp

text \<open>
  Claim C4, as amended. A call of \<^verbatim>\<open>_request\<close> emits nothing when the client has no
  sink. It emits nothing either when the transport rejects with no response attached: the
  guard \<^verbatim>\<open>if (e.response)\<close> skips the log, and the transport's exception is raised
  again unchanged. With a sink, a call that does not end in a \<^verbatim>\<open>TypeError\<close> and whose
  transport answers with a response emits exactly one line, written from that response
  after the transport has resolved or rejected, so that it carries the response's status
  and status text: at the client's level when the transport resolved, and the call returns
  the payload; at level \<^verbatim>\<open>error\<close> when it rejected with the response attached, before
  the status is tested, so that a 404 is logged at level \<^verbatim>\<open>error\<close> and the call then
  returns \<^verbatim>\<open>null\<close>, and any other status is logged and the exception raised again.
\<close>

theorem log_emissions:
  "(logger this = None \<longrightarrow>
      emitted (ClearAgApi_request this sf tr endpoint config) = []) \<and>
   (ClearAgApi_request_config this endpoint config = Inr c \<and> tr c = Rejects (Exn msg None) \<longrightarrow>
      emitted (ClearAgApi_request this sf tr endpoint config) = [] \<and>
      result (ClearAgApi_request this sf tr endpoint config) = Inl (Rejected (Exn msg None))) \<and>
   (logger this \<noteq> None \<and> ClearAgApi_request_config this endpoint config = Inr c \<and>
    tr c = Resolves r \<and>
    result (ClearAgApi_request this sf tr endpoint config) \<noteq> Inl TypeError \<longrightarrow>
      emitted (ClearAgApi_request this sf tr endpoint config) =
        [(to_string (logLevel this), join (compact
             [JStr (''['' @ name this @ '']''), lookup c ''method'',
              if truthy (lookup (loggerConfig this) ''params'')
              then lookup (request r) ''path'' else JStr endpoint,
              if truthy (lookup (loggerConfig this) ''data'')
              then sf (lookup c ''data'') else JNull,
              JStr (show_num (status r) 0 @ '' '' @ statusText r),
              if truthy (lookup (loggerConfig this) ''response'')
              then sf (data r) else JNull]) '' '')] \<and>
      result (ClearAgApi_request this sf tr endpoint config) = Inr (data r)) \<and>
   (logger this \<noteq> None \<and> ClearAgApi_request_config this endpoint config = Inr c \<and>
    tr c = Rejects (Exn msg (Some r)) \<and>
    result (ClearAgApi_request this sf tr endpoint config) \<noteq> Inl TypeError \<longrightarrow>
      emitted (ClearAgApi_request this sf tr endpoint config) = [(''error'', join (compact
             [JStr (''['' @ name this @ '']''), lookup c ''method'',
              if truthy (lookup (loggerConfig this) ''params'')
              then lookup (request r) ''path'' else JStr endpoint,
              if truthy (lookup (loggerConfig this) ''data'')
              then sf (lookup c ''data'') else JNull,
              JStr (show_num (status r) 0 @ '' '' @ statusText r),
              if truthy (lookup (loggerConfig this) ''response'')
              then sf (data r) else JNull]) '' '')] \<and>
      result (ClearAgApi_request this sf tr endpoint config) =
        (if status r = 404 then Inr JNull else Inl (Rejected (Exn msg (Some r)))))"
  using request_emitted_no_logger [of this sf tr endpoint config]
    request_emitted_no_response [of this endpoint config c tr msg sf]
    request_logged_resolved [of this endpoint config c tr r sf]
    request_logged_rejected [of this endpoint config c tr msg r sf]
  by blast

theorem log_emissions_witness:
  "emitted (ClearAgApi_request \<lparr> appId = JStr ''id'', appKey = JStr ''key'', host = JStr ''https://h'',
       name = ''clearag-api'', logger = None, loggerConfig = JUndefined,
       logLevel = JStr ''verbose'', responseType = JStr ''json'', timeout = JNum 180000 0 \<rparr> (\<lambda>v. if v = JUndefined then JUndefined else JStr (to_string v)) (\<lambda>_. Resolves \<lparr> status = 200, statusText = ''OK'', data = JNum 1 0, request = JUndefined \<rparr>) ''/p''
       (JObj [(''method'', JStr ''GET''), (''params'', JObj [])])) = [] \<and>
   emitted (ClearAgApi_request \<lparr> appId = JStr ''id'', appKey = JStr ''key'', host = JStr ''https://h'',
       name = ''clearag-api'', logger = Some [''verbose'', ''error''], loggerConfig = JObj [],
       logLevel = JStr ''verbose'', responseType = JStr ''json'', timeout = JNum 180000 0 \<rparr> (\<lambda>v. if v = JUndefined then JUndefined else JStr (to_string v)) (\<lambda>_. Rejects (Exn ''timeout'' None)) ''/p''
       (JObj [(''method'', JStr ''GET''), (''params'', JObj [])])) = [] \<and>
   result (ClearAgApi_request \<lparr> appId = JStr ''id'', appKey = JStr ''key'', host = JStr ''https://h'',
       name = ''clearag-api'', logger = Some [''verbose'', ''error''], loggerConfig = JObj [],
       logLevel = JStr ''verbose'', responseType = JStr ''json'', timeout = JNum 180000 0 \<rparr> (\<lambda>v. if v = JUndefined then JUndefined else JStr (to_string v)) (\<lambda>_. Rejects (Exn ''timeout'' None)) ''/p''
       (JObj [(''method'', JStr ''GET''), (''params'', JObj [])])) = Inl (Rejected (Exn ''timeout'' None)) \<and>
   emitted (ClearAgApi_request \<lparr> appId = JStr ''id'', appKey = JStr ''key'', host = JStr ''https://h'',
       name = ''clearag-api'', logger = Some [''verbose'', ''error''], loggerConfig = JObj [],
       logLevel = JStr ''verbose'', responseType = JStr ''json'', timeout = JNum 180000 0 \<rparr> (\<lambda>v. if v = JUndefined then JUndefined else JStr (to_string v)) (\<lambda>_. Resolves \<lparr> status = 200, statusText = ''OK'', data = JNum 1 0, request = JUndefined \<rparr>) ''/p''
       (JObj [(''method'', JStr ''GET''), (''params'', JObj [])])) = [(''verbose'', ''[clearag-api] GET /p 200 OK'')] \<and>
   result (ClearAgApi_request \<lparr> appId = JStr ''id'', appKey = JStr ''key'', host = JStr ''https://h'',
       name = ''clearag-api'', logger = Some [''verbose'', ''error''], loggerConfig = JObj [],
       logLevel = JStr ''verbose'', responseType = JStr ''json'', timeout = JNum 180000 0 \<rparr> (\<lambda>v. if v = JUndefined then JUndefined else JStr (to_string v)) (\<lambda>_. Resolves \<lparr> status = 200, statusText = ''OK'', data = JNum 1 0, request = JUndefined \<rparr>) ''/p''
       (JObj [(''method'', JStr ''GET''), (''params'', JObj [])])) = Inr (JNum 1 0) \<and>
   emitted (ClearAgApi_request \<lparr> appId = JStr ''id'', appKey = JStr ''key'', host = JStr ''https://h'',
       name = ''clearag-api'', logger = Some [''verbose'', ''error''], loggerConfig = JObj [],
       logLevel = JStr ''verbose'', responseType = JStr ''json'', timeout = JNum 180000 0 \<rparr> (\<lambda>v. if v = JUndefined then JUndefined else JStr (to_string v))
       (\<lambda>_. Rejects (Exn ''Request failed with status code 404'' (Some \<lparr> status = 404, statusText = ''Not Found'', data = JNum 1 0, request = JUndefined \<rparr>))) ''/p''
       (JObj [(''method'', JStr ''GET''), (''params'', JObj [])])) = [(''error'', ''[clearag-api] GET /p 404 Not Found'')] \<and>
   result (ClearAgApi_request \<lparr> appId = JStr ''id'', appKey = JStr ''key'', host = JStr ''https://h'',
       name = ''clearag-api'', logger = Some [''verbose'', ''error''], loggerConfig = JObj [],
       logLevel = JStr ''verbose'', responseType = JStr ''json'', timeout = JNum 180000 0 \<rparr> (\<lambda>v. if v = JUndefined then JUndefined else JStr (to_string v))
       (\<lambda>_. Rejects (Exn ''Request failed with status code 404'' (Some \<lparr> status = 404, statusText = ''Not Found'', data = JNum 1 0, request = JUndefined \<rparr>))) ''/p''
       (JObj [(''method'', JStr ''GET''), (''params'', JObj [])])) = Inr JNull \<and>
   emitted (ClearAgApi_request \<lparr> appId = JStr ''id'', appKey = JStr ''key'', host = JStr ''https://h'',
       name = ''clearag-api'', logger = Some [''verbose'', ''error''], loggerConfig = JObj [],
       logLevel = JStr ''verbose'', responseType = JStr ''json'', timeout = JNum 180000 0 \<rparr> (\<lambda>v. if v = JUndefined then JUndefined else JStr (to_string v))
       (\<lambda>_. Rejects (Exn ''Request failed with status code 500'' (Some \<lparr> status = 500, statusText = ''Internal Server Error'', data = JNum 1 0, request = JUndefined \<rparr>))) ''/p''
       (JObj [(''method'', JStr ''GET''), (''params'', JObj [])])) = [(''error'', ''[clearag-api] GET /p 500 Internal Server Error'')] \<and>
   result (ClearAgApi_request \<lparr> appId = JStr ''id'', appKey = JStr ''key'', host = JStr ''https://h'',
       name = ''clearag-api'', logger = Some [''verbose'', ''error''], loggerConfig = JObj [],
       logLevel = JStr ''verbose'', responseType = JStr ''json'', timeout = JNum 180000 0 \<rparr> (\<lambda>v. if v = JUndefined then JUndefined else JStr (to_string v))
       (\<lambda>_. Rejects (Exn ''Request failed with status code 500'' (Some \<lparr> status = 500, statusText = ''Internal Server Error'', data = JNum 1 0, request = JUndefined \<rparr>))) ''/p''
       (JObj [(''method'', JStr ''GET''), (''params'', JObj [])])) = Inl (Rejected (Exn ''Request failed with status code 500'' (Some \<lparr> status = 500, statusText = ''Internal Server Error'', data = JNum 1 0, request = JUndefined \<rparr>)))"
proof -
  let ?T0 = "\<lparr> appId = JStr ''id'', appKey = JStr ''key'', host = JStr ''https://h'',
       name = ''clearag-api'', logger = None, loggerConfig = JUndefined,
       logLevel = JStr ''verbose'', responseType = JStr ''json'', timeout = JNum 180000 0 \<rparr>"
  let ?T1 = "\<lparr> appId = JStr ''id'', appKey = JStr ''key'', host = JStr ''https://h'',
       name = ''clearag-api'', logger = Some [''verbose'', ''error''], loggerConfig = JObj [],
       logLevel = JStr ''verbose'', responseType = JStr ''json'', timeout = JNum 180000 0 \<rparr>"
  let ?sf = "(\<lambda>v. if v = JUndefined then JUndefined else JStr (to_string v))"
  let ?cfg = "(JObj [(''method'', JStr ''GET''), (''params'', JObj [])])"
  let ?c = "(JObj [(''method'', JStr ''GET''),
              (''params'', JObj [(''app_id'', JStr ''id''), (''app_key'', JStr ''key'')]),
              (''url'', JStr ''https://h/p''), (''responseType'', JStr ''json''),
              (''timeout'', JNum 180000 0)])"
  let ?R200 = "\<lparr> status = 200, statusText = ''OK'', data = JNum 1 0, request = JUndefined \<rparr>"
  let ?R404 = "\<lparr> status = 404, statusText = ''Not Found'', data = JNum 1 0, request = JUndefined \<rparr>"
  let ?R500 = "\<lparr> status = 500, statusText = ''Internal Server Error'', data = JNum 1 0, request = JUndefined \<rparr>"
  let ?ok = "\<lambda>_::jsval. Resolves ?R200"
  let ?nf = "\<lambda>_::jsval. Rejects (Exn ''Request failed with status code 404'' (Some ?R404))"
  let ?ko = "\<lambda>_::jsval. Rejects (Exn ''Request failed with status code 500'' (Some ?R500))"
  let ?to = "\<lambda>_::jsval. Rejects (Exn ''timeout'' None)"
  have l0: "logger ?T0 = None" by simp
  have l1: "logger ?T1 \<noteq> None" by simp
  have c1: "ClearAgApi_request_config ?T1 ''/p'' ?cfg = Inr ?c" by code_simp
  have n_ok: "result (ClearAgApi_request ?T1 ?sf ?ok ''/p'' ?cfg) \<noteq> Inl TypeError" by code_simp
  have n_nf: "result (ClearAgApi_request ?T1 ?sf ?nf ''/p'' ?cfg) \<noteq> Inl TypeError" by code_simp
  have n_ko: "result (ClearAgApi_request ?T1 ?sf ?ko ''/p'' ?cfg) \<noteq> Inl TypeError" by code_simp
  have a: "emitted (ClearAgApi_request ?T0 ?sf ?ok ''/p'' ?cfg) = []"
    using log_emissions [of ?T0 ?sf ?ok "''/p''" ?cfg] l0 by blast
  have b: "emitted (ClearAgApi_request ?T1 ?sf ?to ''/p'' ?cfg) = [] \<and>
           result (ClearAgApi_request ?T1 ?sf ?to ''/p'' ?cfg) = Inl (Rejected (Exn ''timeout'' None))"
    using log_emissions [of ?T1 ?sf ?to "''/p''" ?cfg ?c "''timeout''"] c1 by blast
  have "emitted (ClearAgApi_request ?T1 ?sf ?ok ''/p'' ?cfg) =
          [(to_string (logLevel ?T1), join (compact
             [JStr (''['' @ name ?T1 @ '']''), lookup ?c ''method'',
              if truthy (lookup (loggerConfig ?T1) ''params'')
              then lookup (request ?R200) ''path'' else JStr ''/p'',
              if truthy (lookup (loggerConfig ?T1) ''data'')
              then ?sf (lookup ?c ''data'') else JNull,
              JStr (show_num (status ?R200) 0 @ '' '' @ statusText ?R200),
              if truthy (lookup (loggerConfig ?T1) ''response'')
              then ?sf (data ?R200) else JNull]) '' '')] \<and>
        result (ClearAgApi_request ?T1 ?sf ?ok ''/p'' ?cfg) = Inr (data ?R200)"
    using log_emissions [of ?T1 ?sf ?ok "''/p''" ?cfg ?c _ ?R200] l1 c1 n_ok by blast
  moreover have "[(to_string (logLevel ?T1), join (compact
             [JStr (''['' @ name ?T1 @ '']''), lookup ?c ''method'',
              if truthy (lookup (loggerConfig ?T1) ''params'')
              then lookup (request ?R200) ''path'' else JStr ''/p'',
              if truthy (lookup (loggerConfig ?T1) ''data'')
              then ?sf (lookup ?c ''data'') else JNull,
              JStr (show_num (status ?R200) 0 @ '' '' @ statusText ?R200),
              if truthy (lookup (loggerConfig ?T1) ''response'')
              then ?sf (data ?R200) else JNull]) '' '')]
                   = [(''verbose'', ''[clearag-api] GET /p 200 OK'')]"
    by code_simp
  ultimately have d: "emitted (ClearAgApi_request ?T1 ?sf ?ok ''/p'' ?cfg) =
          [(''verbose'', ''[clearag-api] GET /p 200 OK'')] \<and>
        result (ClearAgApi_request ?T1 ?sf ?ok ''/p'' ?cfg) = Inr (JNum 1 0)"
    by simp
  have "emitted (ClearAgApi_request ?T1 ?sf ?nf ''/p'' ?cfg) = [(''error'', join (compact
             [JStr (''['' @ name ?T1 @ '']''), lookup ?c ''method'',
              if truthy (lookup (loggerConfig ?T1) ''params'')
              then lookup (request ?R404) ''path'' else JStr ''/p'',
              if truthy (lookup (loggerConfig ?T1) ''data'')
              then ?sf (lookup ?c ''data'') else JNull,
              JStr (show_num (status ?R404) 0 @ '' '' @ statusText ?R404),
              if truthy (lookup (loggerConfig ?T1) ''response'')
              then ?sf (data ?R404) else JNull]) '' '')] \<and>
        result (ClearAgApi_request ?T1 ?sf ?nf ''/p'' ?cfg) =
          (if status ?R404 = 404 then Inr JNull
           else Inl (Rejected (Exn ''Request failed with status code 404'' (Some ?R404))))"
    using log_emissions [of ?T1 ?sf ?nf "''/p''" ?cfg ?c
        "''Request failed with status code 404''" ?R404] l1 c1 n_nf by blast
  moreover have "join (compact
             [JStr (''['' @ name ?T1 @ '']''), lookup ?c ''method'',
              if truthy (lookup (loggerConfig ?T1) ''params'')
              then lookup (request ?R404) ''path'' else JStr ''/p'',
              if truthy (lookup (loggerConfig ?T1) ''data'')
              then ?sf (lookup ?c ''data'') else JNull,
              JStr (show_num (status ?R404) 0 @ '' '' @ statusText ?R404),
              if truthy (lookup (loggerConfig ?T1) ''response'')
              then ?sf (data ?R404) else JNull]) '' '' = ''[clearag-api] GET /p 404 Not Found''"
    by code_simp
  ultimately have e: "emitted (ClearAgApi_request ?T1 ?sf ?nf ''/p'' ?cfg) =
          [(''error'', ''[clearag-api] GET /p 404 Not Found'')] \<and>
        result (ClearAgApi_request ?T1 ?sf ?nf ''/p'' ?cfg) = Inr JNull"
    by simp
  have "emitted (ClearAgApi_request ?T1 ?sf ?ko ''/p'' ?cfg) = [(''error'', join (compact
             [JStr (''['' @ name ?T1 @ '']''), lookup ?c ''method'',
              if truthy (lookup (loggerConfig ?T1) ''params'')
              then lookup (request ?R500) ''path'' else JStr ''/p'',
              if truthy (lookup (loggerConfig ?T1) ''data'')
              then ?sf (lookup ?c ''data'') else JNull,
              JStr (show_num (status ?R500) 0 @ '' '' @ statusText ?R500),
              if truthy (lookup (loggerConfig ?T1) ''response'')
              then ?sf (data ?R500) else JNull]) '' '')] \<and>
        result (ClearAgApi_request ?T1 ?sf ?ko ''/p'' ?cfg) =
          (if status ?R500 = 404 then Inr JNull
           else Inl (Rejected (Exn ''Request failed with status code 500'' (Some ?R500))))"
    using log_emissions [of ?T1 ?sf ?ko "''/p''" ?cfg ?c
        "''Request failed with status code 500''" ?R500] l1 c1 n_ko by blast
  moreover have "join (compact
             [JStr (''['' @ name ?T1 @ '']''), lookup ?c ''method'',
              if truthy (lookup (loggerConfig ?T1) ''params'')
              then lookup (request ?R500) ''path'' else JStr ''/p'',
              if truthy (lookup (loggerConfig ?T1) ''data'')
              then ?sf (lookup ?c ''data'') else JNull,
              JStr (show_num (status ?R500) 0 @ '' '' @ statusText ?R500),
              if truthy (lookup (loggerConfig ?T1) ''response'')
              then ?sf (data ?R500) else JNull]) '' '' = ''[clearag-api] GET /p 500 Internal Server Error''"
    by code_simp
  ultimately have f: "emitted (ClearAgApi_request ?T1 ?sf ?ko ''/p'' ?cfg) =
          [(''error'', ''[clearag-api] GET /p 500 Internal Server Error'')] \<and>
        result (ClearAgApi_request ?T1 ?sf ?ko ''/p'' ?cfg) =
          Inl (Rejected (Exn ''Request failed with status code 500'' (Some ?R500)))"
    by simp
  from a b d e f show ?thesis by blast
qed

subsection \<open>Errors raised while the log line is written\<close>

text \<open>
  Claim C5. The log step is to degrade to omission and never replace the call's outcome.
  A client built with a sink and no \<^verbatim>\<open>loggerConfig\<close> option is the client below;
  on it a GET the transport answers with status 200 ends in a \<^verbatim>\<open>TypeError\<close>, raised
  when \<^verbatim>\<open>_writeLog\<close> reads \<^verbatim>\<open>this.loggerConfig.url\<close>, and not in the payload. The
  same happens with the \<^verbatim>\<open>params\<close> flag enabled and a response with no
  \<^verbatim>\<open>request\<close> object, and with the \<^verbatim>\<open>url\<close> flag enabled, where
  \<^verbatim>\<open>_buildScheme\<close>, which the class does not define, is called.
\<close>

theorem log_step_replaces_payload:
  "ClearAgApi_constructor (JObj [(''appId'', JStr ''id''), (''appKey'', JStr ''key'')]) (Some [''verbose'', ''error'']) = Inr \<lparr> appId = JStr ''id'', appKey = JStr ''key'', host = JStr ''https://ag.us.clearapis.com'',
       name = ''clearag-api'', logger = Some [''verbose'', ''error''], loggerConfig = JUndefined,
       logLevel = JStr ''verbose'', responseType = JStr ''json'', timeout = JNum 180000 0 \<rparr> \<and>
   result (ClearAgApi_get \<lparr> appId = JStr ''id'', appKey = JStr ''key'', host = JStr ''https://ag.us.clearapis.com'',
       name = ''clearag-api'', logger = Some [''verbose'', ''error''], loggerConfig = JUndefined,
       logLevel = JStr ''verbose'', responseType = JStr ''json'', timeout = JNum 180000 0 \<rparr> (\<lambda>v. if v = JUndefined then JUndefined else JStr (to_string v)) (\<lambda>_. Resolves \<lparr> status = 200, statusText = ''OK'', data = JNum 1 0, request = JUndefined \<rparr>)
       ''/v1.2/historical/daily/air_temp'' (JObj []) JUndefined JUndefined) = Inl TypeError \<and>
   result (ClearAgApi_get \<lparr> appId = JStr ''id'', appKey = JStr ''key'', host = JStr ''https://ag.us.clearapis.com'',
       name = ''clearag-api'', logger = Some [''verbose'', ''error''], loggerConfig = JObj [(''params'', JBool True)],
       logLevel = JStr ''verbose'', responseType = JStr ''json'', timeout = JNum 180000 0 \<rparr> (\<lambda>v. if v = JUndefined then JUndefined else JStr (to_string v)) (\<lambda>_. Resolves \<lparr> status = 200, statusText = ''OK'', data = JNum 1 0, request = JUndefined \<rparr>)
       ''/v1.2/historical/daily/air_temp'' (JObj []) JUndefined JUndefined) = Inl TypeError \<and>
   result (ClearAgApi_get \<lparr> appId = JStr ''id'', appKey = JStr ''key'', host = JStr ''https://ag.us.clearapis.com'',
       name = ''clearag-api'', logger = Some [''verbose'', ''error''], loggerConfig = JObj [(''url'', JBool True)],
       logLevel = JStr ''verbose'', responseType = JStr ''json'', timeout = JNum 180000 0 \<rparr> (\<lambda>v. if v = JUndefined then JUndefined else JStr (to_string v)) (\<lambda>_. Resolves \<lparr> status = 200, statusText = ''OK'', data = JNum 1 0, request = JUndefined \<rparr>)
       ''/v1.2/historical/daily/air_temp'' (JObj []) JUndefined JUndefined) = Inl TypeError \<and>
   result (ClearAgApi_get \<lparr> appId = JStr ''id'', appKey = JStr ''key'', host = JStr ''https://ag.us.clearapis.com'',
       name = ''clearag-api'', logger = None, loggerConfig = JUndefined,
       logLevel = JStr ''verbose'', responseType = JStr ''json'', timeout = JNum 180000 0 \<rparr> (\<lambda>v. if v = JUndefined then JUndefined else JStr (to_string v)) (\<lambda>_. Resolves \<lparr> status = 200, statusText = ''OK'', data = JNum 1 0, request = JUndefined \<rparr>)
       ''/v1.2/historical/daily/air_temp'' (JObj []) JUndefined JUndefined) = Inr (JNum 1 0)"
  by code_simp

subsection \<open>The tolerant policy\<close>

lemma tolerant_policy_unless_log_raises:
  assumes c: "ClearAgApi_request_config this endpoint config = Inr c"
  shows "tr c = Rejects (Exn msg None) \<Longrightarrow>
           result (ClearAgApi_request this sf tr endpoint config) = Inl (Rejected (Exn msg None))"
    and "tr c = Rejects (Exn msg (Some r)) \<Longrightarrow>
         result (ClearAgApi_request this sf tr endpoint config) \<noteq> Inl TypeError \<Longrightarrow>
           result (ClearAgApi_request this sf tr endpoint config) =
             (if status r = 404 then Inr JNull else Inl (Rejected (Exn msg (Some r))))"
proof -
  show "tr c = Rejects (Exn msg None) \<Longrightarrow>
           result (ClearAgApi_request this sf tr endpoint config) = Inl (Rejected (Exn msg None))"
    using c by (simp add: ClearAgApi_request_def)
  assume t: "tr c = Rejects (Exn msg (Some r))"
    and n: "result (ClearAgApi_request this sf tr endpoint config) \<noteq> Inl TypeError"
  show "result (ClearAgApi_request this sf tr endpoint config) =
             (if status r = 404 then Inr JNull else Inl (Rejected (Exn msg (Some r))))"
  proof (cases "ClearAgApi_writeLog this sf endpoint c r (JStr ''error'')")
    case (Inl e)
    then have "e = TypeError" by (rule writeLog_Inl)
    with Inl c t n show ?thesis by (simp add: ClearAgApi_request_def)
  next
    case (Inr lines)
    with c t show ?thesis by (simp add: ClearAgApi_request_def)
  qed
qed

text \<open>
  Claim C2. A rejection with an attached 404 is to give \<^verbatim>\<open>null\<close>, one with another
  status is to raise the transport's exception unchanged. On the client built with a sink
  and no \<^verbatim>\<open>loggerConfig\<close> option both end in the \<^verbatim>\<open>TypeError\<close> of the log step,
  which runs before the status is tested. A rejection with no response attached is raised
  again unchanged, and with no sink the 404 gives \<^verbatim>\<open>null\<close>.
\<close>

theorem not_found_replaced_by_log_error:
  "result (ClearAgApi_get \<lparr> appId = JStr ''id'', appKey = JStr ''key'', host = JStr ''https://ag.us.clearapis.com'',
       name = ''clearag-api'', logger = Some [''verbose'', ''error''], loggerConfig = JUndefined,
       logLevel = JStr ''verbose'', responseType = JStr ''json'', timeout = JNum 180000 0 \<rparr> (\<lambda>v. if v = JUndefined then JUndefined else JStr (to_string v))
       (\<lambda>_. Rejects (Exn ''Request failed with status code 404'' (Some \<lparr> status = 404, statusText = ''Not Found'', data = JNum 1 0, request = JUndefined \<rparr>)))
       ''/v1.2/historical/daily/air_temp'' (JObj []) JUndefined JUndefined) = Inl TypeError \<and>
   result (ClearAgApi_get \<lparr> appId = JStr ''id'', appKey = JStr ''key'', host = JStr ''https://ag.us.clearapis.com'',
       name = ''clearag-api'', logger = Some [''verbose'', ''error''], loggerConfig = JUndefined,
       logLevel = JStr ''verbose'', responseType = JStr ''json'', timeout = JNum 180000 0 \<rparr> (\<lambda>v. if v = JUndefined then JUndefined else JStr (to_string v))
       (\<lambda>_. Rejects (Exn ''Request failed with status code 500'' (Some \<lparr> status = 500, statusText = ''Internal Server Error'', data = JNum 1 0, request = JUndefined \<rparr>)))
       ''/v1.2/historical/daily/air_temp'' (JObj []) JUndefined JUndefined) = Inl TypeError \<and>
   result (ClearAgApi_get \<lparr> appId = JStr ''id'', appKey = JStr ''key'', host = JStr ''https://ag.us.clearapis.com'',
       name = ''clearag-api'', logger = Some [''verbose'', ''error''], loggerConfig = JUndefined,
       logLevel = JStr ''verbose'', responseType = JStr ''json'', timeout = JNum 180000 0 \<rparr> (\<lambda>v. if v = JUndefined then JUndefined else JStr (to_string v))
       (\<lambda>_. Rejects (Exn ''timeout of 180000ms exceeded'' None))
       ''/v1.2/historical/daily/air_temp'' (JObj []) JUndefined JUndefined)
     = Inl (Rejected (Exn ''timeout of 180000ms exceeded'' None)) \<and>
   result (ClearAgApi_get \<lparr> appId = JStr ''id'', appKey = JStr ''key'', host = JStr ''https://ag.us.clearapis.com'',
       name = ''clearag-api'', logger = None, loggerConfig = JUndefined,
       logLevel = JStr ''verbose'', responseType = JStr ''json'', timeout = JNum 180000 0 \<rparr> (\<lambda>v. if v = JUndefined then JUndefined else JStr (to_string v))
       (\<lambda>_. Rejects (Exn ''Request failed with status code 404'' (Some \<lparr> status = 404, statusText = ''Not Found'', data = JNum 1 0, request = JUndefined \<rparr>)))
       ''/v1.2/historical/daily/air_temp'' (JObj []) JUndefined JUndefined) = Inr JNull"
  by code_simp

end
